theory Spec2Isabelle
  imports Complex_Main "HOL-Library.AList"
begin

section \<open>The pair-site joint-state IGC model (PSJSModel.py)\<close>

text \<open>
  A shallow embedding of the class \<^verbatim>\<open>PSJSModel\<close>. Python exceptions (a failed
  \<^verbatim>\<open>assert\<close>, \<^verbatim>\<open>sys.exit\<close>, an index out of range, a failed unpacking, an
  operation on \<^verbatim>\<open>None\<close>) are values of the type \<open>error\<close>.
  A state is a list of integers, whether the source holds it as a tuple or as a list,
  and both states of a transition are sequences of the same kind (Python compares a
  tuple and a list as unequal). Parameter vectors are lists of finite numbers; that a
  numpy slice shares its memory with the vector it is taken from is outside the model.
\<close>

subsection \<open>Errors and numbers\<close>

datatype error =
    AssertionError
  | SystemExit string
  | IndexError
  | ValueError
  | TypeError
  | AttributeError
  | KeyError

text \<open>
  A value of numpy's \<^verbatim>\<open>float64\<close> is a finite number, an infinity or
  \<^verbatim>\<open>nan\<close>; the two zeros are one value (the sign of a zero result is not
  modelled, and a zero divisor counts as positive).
\<close>

datatype float64 = Finite real | PosInf | NegInf | NaN

text \<open>
  The arithmetic of \<^verbatim>\<open>float64\<close> is a parameter: \<open>rnd\<close> takes the exact result
  of an addition, a subtraction, a multiplication or a division of two finite numbers to
  the \<^verbatim>\<open>float64\<close> that the operation returns (a finite number, or an infinity on
  overflow), and \<^verbatim>\<open>np.exp\<close> and the power \<^verbatim>\<open>**\<close>, which the
  mathematical library computes, are functions of their own. Nothing is assumed of them
  here; a theorem that needs a property of the arithmetic states it.
\<close>

record float_arith =
  rnd :: "real \<Rightarrow> float64"
  np_exp :: "real \<Rightarrow> float64"
  np_power :: "float64 \<Rightarrow> nat \<Rightarrow> float64"

text \<open>
  The four operators on \<^verbatim>\<open>float64\<close>. A zero divisor is no exception in numpy:
  the quotient is \<^verbatim>\<open>nan\<close> for \<^verbatim>\<open>0/0\<close> and an infinity otherwise.
\<close>

definition inf_of :: "bool \<Rightarrow> float64" where
  "inf_of positive = (if positive then PosInf else NegInf)"

fun fl_neg :: "float64 \<Rightarrow> float64" where
  "fl_neg (Finite a) = Finite (- a)"
| "fl_neg PosInf = NegInf"
| "fl_neg NegInf = PosInf"
| "fl_neg NaN = NaN"

fun fl_add :: "float_arith \<Rightarrow> float64 \<Rightarrow> float64 \<Rightarrow> float64" where
  "fl_add fp (Finite a) (Finite b) = rnd fp (a + b)"
| "fl_add fp NaN v = NaN"
| "fl_add fp u NaN = NaN"
| "fl_add fp PosInf NegInf = NaN"
| "fl_add fp NegInf PosInf = NaN"
| "fl_add fp PosInf v = PosInf"
| "fl_add fp u PosInf = PosInf"
| "fl_add fp NegInf v = NegInf"
| "fl_add fp u NegInf = NegInf"

definition fl_sub :: "float_arith \<Rightarrow> float64 \<Rightarrow> float64 \<Rightarrow> float64" where
  "fl_sub fp u v = fl_add fp u (fl_neg v)"

fun fl_mul :: "float_arith \<Rightarrow> float64 \<Rightarrow> float64 \<Rightarrow> float64" where
  "fl_mul fp (Finite a) (Finite b) = rnd fp (a * b)"
| "fl_mul fp NaN v = NaN"
| "fl_mul fp u NaN = NaN"
| "fl_mul fp (Finite a) v = (if a = 0 then NaN else inf_of ((0 < a) = (v = PosInf)))"
| "fl_mul fp u (Finite b) = (if b = 0 then NaN else inf_of ((0 < b) = (u = PosInf)))"
| "fl_mul fp u v = inf_of ((u = PosInf) = (v = PosInf))"

fun fl_div :: "float_arith \<Rightarrow> float64 \<Rightarrow> float64 \<Rightarrow> float64" where
  "fl_div fp (Finite a) (Finite b) =
     (if b \<noteq> 0 then rnd fp (a / b)
      else if a = 0 then NaN
      else inf_of (0 < a))"
| "fl_div fp NaN v = NaN"
| "fl_div fp u NaN = NaN"
| "fl_div fp (Finite a) v = Finite 0"
| "fl_div fp u (Finite b) = inf_of ((0 \<le> b) = (u = PosInf))"
| "fl_div fp u v = NaN"

subsection \<open>The point-mutation collaborator\<close>

text \<open>
  The class \<^verbatim>\<open>PMModel\<close> is imported by the file and is not part of it. It is a
  parameter of every definition that uses it: its list \<^verbatim>\<open>supported\<close>, its
  constructor, its method \<^verbatim>\<open>update_by_x_pm\<close> and the lookup
  \<^verbatim>\<open>Q_mut[a, b]\<close> in its rate table (\<open>None\<close> when the lookup raises
  \<^verbatim>\<open>IndexError\<close>).
\<close>

type_synonym force_map = "(int \<times> real) list"

record 'pm PMModel_ops =
  PMModel_supported :: "string list"
  PMModel_init :: "string \<Rightarrow> real list \<Rightarrow> force_map option \<Rightarrow> 'pm"
  update_by_x_pm :: "'pm \<Rightarrow> real list \<Rightarrow> 'pm"
  Q_mut :: "'pm \<Rightarrow> int \<Rightarrow> int \<Rightarrow> float64 option"

subsection \<open>The model instance\<close>

text \<open>
  The attributes of an instance. Those that \<^verbatim>\<open>__init__\<close> sets to
  \<^verbatim>\<open>None\<close> before \<^verbatim>\<open>init_models\<close> fills them are options. A dictionary
  of forced parameter values is an association list in iteration order.
\<close>

record 'pm PSJSModel =
  n_js :: int
  x_js :: "real list"
  x_pm :: "real list option"
  x_IGC :: "real list option"
  IGC_force :: "force_map option"
  force :: "force_map option"
  IGC_pm :: string
  pm_model :: string
  n_orlg :: int
  PMModel :: "'pm option"
  state_space_shape :: "int list option"

definition PSJSModel_supported :: "string list" where
  "PSJSModel_supported = [''One rate'']"

subsection \<open>unpack_x_js and update_by_x_js\<close>

text \<open>
  A method that mutates the instance returns the exception it raised (\<open>None\<close> when
  it returned normally) together with the instance as it is left.
\<close>

definition unpack_x_js ::
  "'pm PMModel_ops \<Rightarrow> 'pm PSJSModel \<Rightarrow> real list \<Rightarrow> error option \<times> 'pm PSJSModel" where
  "unpack_x_js ops m x =
     (if pm_model m \<notin> set (PMModel_supported ops) then (Some AssertionError, m)
      else if IGC_pm m \<notin> set PSJSModel_supported then (Some AssertionError, m)
      else if pm_model m \<noteq> ''HKY''
        then (Some (SystemExit ''The point mutation model is not supported.''), m)
      else let num_x_pm = 4 in
        if IGC_pm m \<noteq> ''One rate''
          then (Some (SystemExit ''The IGC parameterization has not been implemented.''), m)
        else let num_x_IGC = 2;
                 m' = m\<lparr>x_pm := Some (take num_x_pm x),
                        x_IGC := Some (drop num_x_pm x),
                        x_js := x\<rparr>
             in if num_x_pm + num_x_IGC = length (x_js m') then (None, m')
                else (Some AssertionError, m'))"

definition update_by_x_js ::
  "'pm PMModel_ops \<Rightarrow> 'pm PSJSModel \<Rightarrow> real list \<Rightarrow> error option \<times> 'pm PSJSModel" where
  "update_by_x_js ops m new_x_js =
     (case unpack_x_js ops m new_x_js of
        (Some e, m') \<Rightarrow> (Some e, m')
      | (None, m') \<Rightarrow>
          (case PMModel m' of
             None \<Rightarrow> (Some AttributeError, m')
           | Some pm \<Rightarrow>
               (case x_pm m' of
                  None \<Rightarrow> (Some TypeError, m')
                | Some xs \<Rightarrow> (None, m'\<lparr>PMModel := Some (update_by_x_pm ops pm xs)\<rparr>))))"

subsection \<open>divide_force\<close>

text \<open>
  The loop \<^verbatim>\<open>for key in self.force\<close> visits the keys in order and reads
  \<^verbatim>\<open>self.force[key]\<close>; an assignment \<^verbatim>\<open>d[k] = v\<close> is \<open>AList.update\<close>.
\<close>

fun divide_force_loop ::
  "force_map \<Rightarrow> int \<Rightarrow> int list \<Rightarrow> force_map \<times> force_map \<Rightarrow> error + force_map \<times> force_map" where
  "divide_force_loop f num_x_pm [] (pm_force, igc_force) = Inr (pm_force, igc_force)"
| "divide_force_loop f num_x_pm (key # keys) (pm_force, igc_force) =
     (case map_of f key of
        None \<Rightarrow> Inl KeyError
      | Some v \<Rightarrow>
          if key < num_x_pm
          then divide_force_loop f num_x_pm keys (AList.update key v pm_force, igc_force)
          else divide_force_loop f num_x_pm keys
                 (pm_force, AList.update (key - num_x_pm) v igc_force))"

definition divide_force ::
  "'pm PMModel_ops \<Rightarrow> 'pm PSJSModel \<Rightarrow> error + force_map option \<times> force_map option" where
  "divide_force ops m =
     (case force m of
        None \<Rightarrow> Inr (None, None)
      | Some f \<Rightarrow>
          if pm_model m \<notin> set (PMModel_supported ops) then Inl AssertionError
          else if IGC_pm m \<notin> set PSJSModel_supported then Inl AssertionError
          else if pm_model m \<noteq> ''HKY''
            then Inl (SystemExit ''The point mutation model is not supported.'')
          else let num_x_pm = 4 in
            if IGC_pm m \<noteq> ''One rate''
              then Inl (SystemExit ''The IGC parameterization has not been implemented.'')
            else
              (case divide_force_loop f num_x_pm (map fst f) ([], []) of
                 Inl e \<Rightarrow> Inl e
               | Inr (pm_force, igc_force) \<Rightarrow>
                   Inr (if pm_force = [] then None else Some pm_force,
                        if igc_force = [] then None else Some igc_force)))"

subsection \<open>is_transition_compatible\<close>

text \<open>
  A transition is a sequence of states and a state a sequence of integers. The reads
  \<^verbatim>\<open>state_from[i]\<close> and \<^verbatim>\<open>state_to[i]\<close> come after the assertions on the
  lengths, so they are in range.
\<close>

definition pos_list_of :: "int list \<Rightarrow> int list \<Rightarrow> nat list" where
  "pos_list_of state_from state_to =
     filter (\<lambda>i. state_from ! i \<noteq> state_to ! i) [0..<length state_from]"

definition is_transition_compatible :: "'pm PSJSModel \<Rightarrow> int list list \<Rightarrow> error + bool" where
  "is_transition_compatible m transition =
     (case state_space_shape m of
        None \<Rightarrow> Inl TypeError
      | Some shape \<Rightarrow>
          if length shape \<noteq> 4 then Inl AssertionError
          else if length transition \<noteq> 2 then Inl AssertionError
          else let state_from = transition ! 0; state_to = transition ! 1 in
            if \<not> (length state_from = length state_to \<and> length state_to = length shape)
              then Inl AssertionError
            else if state_from = state_to then Inr False
            else let pos_list = pos_list_of state_from state_to in
              if length pos_list > 2 then Inr False
              else if length pos_list = 2 then
                (if pos_list = [0, 1] \<and> state_to ! 0 = state_from ! 2
                      \<and> state_to ! 1 = state_from ! 3
                    \<or> pos_list = [2, 3] \<and> state_to ! 2 = state_from ! 0
                      \<and> state_to ! 3 = state_from ! 1
                 then Inr True
                 else Inr False)
              else if length pos_list = 1 then Inr True
              else Inl (SystemExit ''Check is_transition_compatible function in PSJSModel class.''))"

subsection \<open>get_other_pos and cal_IGC_transition_rate\<close>

definition get_other_pos :: "nat \<Rightarrow> error + nat \<times> nat \<times> nat" where
  "get_other_pos pos =
     (if pos = 0 then Inr (1, 2, 3)
      else if pos = 1 then Inr (0, 3, 2)
      else if pos = 2 then Inr (3, 0, 1)
      else if pos = 3 then Inr (2, 1, 0)
      else Inl (SystemExit ''Position out of range.''))"

text \<open>The last statement of the branch for \<^verbatim>\<open>One rate\<close>.\<close>

definition rate_or_proportion :: "float_arith \<Rightarrow> bool \<Rightarrow> float64 \<Rightarrow> float64 \<Rightarrow> float64" where
  "rate_or_proportion fp proportion q_ij q_IGC =
     (if proportion then fl_div fp q_IGC (fl_add fp q_ij q_IGC) else fl_add fp q_ij q_IGC)"

text \<open>
  The separation \<open>n\<close> is a natural number (the source's comment: 1, 2, 3, ...).
  \<^verbatim>\<open>IGC_init, IGC_p = np.exp(self.x_IGC)\<close> raises \<^verbatim>\<open>ValueError\<close> unless the
  slice has two entries.
\<close>

definition cal_IGC_transition_rate ::
  "float_arith \<Rightarrow> 'pm PMModel_ops \<Rightarrow> 'pm PSJSModel \<Rightarrow> int list list \<Rightarrow> nat \<Rightarrow> bool
     \<Rightarrow> error + float64" where
  "cal_IGC_transition_rate fp ops m transition n proportion =
     (case is_transition_compatible m transition of
        Inl e \<Rightarrow> Inl e
      | Inr False \<Rightarrow> Inl AssertionError
      | Inr True \<Rightarrow>
          let state_from = transition ! 0; state_to = transition ! 1;
              pos_list = pos_list_of state_from state_to
          in if IGC_pm m = ''One rate'' then
              (case x_IGC m of
                 None \<Rightarrow> Inl TypeError
               | Some xs \<Rightarrow>
                  (case map (np_exp fp) xs of
                     [IGC_init, IGC_p] \<Rightarrow>
                       let IGC_0_not_n =
                             fl_mul fp (fl_div fp IGC_init IGC_p)
                               (fl_sub fp (Finite 1)
                                  (np_power fp (fl_sub fp (Finite 1) IGC_p) n));
                           IGC_0_and_n =
                             fl_mul fp (fl_div fp IGC_init IGC_p)
                               (np_power fp (fl_sub fp (Finite 1) IGC_p) n)
                       in if length pos_list = 1 then
                            (let pos = pos_list ! 0 in
                             case get_other_pos pos of
                               Inl e \<Rightarrow> Inl e
                             | Inr (same_paralog_other_pos, other_paralog_same_pos,
                                    other_paralog_other_pos) \<Rightarrow>
                                 (case PMModel m of
                                    None \<Rightarrow> Inl AttributeError
                                  | Some pm \<Rightarrow>
                                     (case Q_mut ops pm (state_from ! pos) (state_to ! pos) of
                                        None \<Rightarrow> Inl IndexError
                                      | Some q_ij \<Rightarrow>
                                          let q_IGC =
                                            (if state_to ! pos = state_from ! other_paralog_same_pos
                                                \<and> state_from ! same_paralog_other_pos
                                                    = state_from ! other_paralog_other_pos
                                             then fl_add fp IGC_0_not_n IGC_0_and_n
                                             else if state_to ! pos
                                                     = state_from ! other_paralog_same_pos
                                                \<and> state_from ! same_paralog_other_pos
                                                    \<noteq> state_from ! other_paralog_other_pos
                                             then IGC_0_not_n
                                             else Finite 0)
                                          in Inr (rate_or_proportion fp proportion q_ij q_IGC))))
                          else if length pos_list = 2 then
                            (if pos_list = [0, 1] \<and> state_to ! 0 = state_from ! 2
                                  \<and> state_to ! 1 = state_from ! 3
                                \<or> pos_list = [2, 3] \<and> state_to ! 2 = state_from ! 0
                                  \<and> state_to ! 3 = state_from ! 1
                             then Inr (rate_or_proportion fp proportion (Finite 0) IGC_0_and_n)
                             else Inl (SystemExit ''Transition not compatible!''))
                          else Inl (SystemExit ''Transition not compatible! 2'')
                   | _ \<Rightarrow> Inl ValueError))
             else Inl (SystemExit ''Cal_IGC_transition_rate not implemented yet.''))"

subsection \<open>get_IGC_transition_rates_BF and get_process_definition\<close>

text \<open>
  \<^verbatim>\<open>range(k)\<close> and \<^verbatim>\<open>itertools.product(xs, repeat = r)\<close>, whose last
  coordinate varies fastest.
\<close>

definition range_int :: "int \<Rightarrow> int list" where
  "range_int k = map int [0..<nat k]"

fun product_repeat :: "'a list \<Rightarrow> nat \<Rightarrow> 'a list list" where
  "product_repeat xs 0 = [[]]"
| "product_repeat xs (Suc r) = concat (map (\<lambda>x. map ((#) x) (product_repeat xs r)) xs)"

text \<open>
  The generator is consumed to its end by \<^verbatim>\<open>get_process_definition\<close>, so it is
  modelled by the list of what it yields; an exception raised on the way ends the
  enumeration and is the result. The inner loop runs over \<open>state_to\<close>, the outer
  loop over \<open>state_from\<close>.
\<close>

fun BF_inner ::
  "float_arith \<Rightarrow> 'pm PMModel_ops \<Rightarrow> 'pm PSJSModel \<Rightarrow> nat \<Rightarrow> bool \<Rightarrow> int list \<Rightarrow> int list list
     \<Rightarrow> error + (int list \<times> int list \<times> float64) list" where
  "BF_inner fp ops m n proportion state_from [] = Inr []"
| "BF_inner fp ops m n proportion state_from (state_to # rest) =
     (case is_transition_compatible m [state_from, state_to] of
        Inl e \<Rightarrow> Inl e
      | Inr False \<Rightarrow> BF_inner fp ops m n proportion state_from rest
      | Inr True \<Rightarrow>
          (case cal_IGC_transition_rate fp ops m [state_from, state_to] n proportion of
             Inl e \<Rightarrow> Inl e
           | Inr r \<Rightarrow>
               (case BF_inner fp ops m n proportion state_from rest of
                  Inl e \<Rightarrow> Inl e
                | Inr ys \<Rightarrow> Inr ((state_from, state_to, r) # ys))))"

fun BF_outer ::
  "float_arith \<Rightarrow> 'pm PMModel_ops \<Rightarrow> 'pm PSJSModel \<Rightarrow> nat \<Rightarrow> bool \<Rightarrow> int list list \<Rightarrow> int list list
     \<Rightarrow> error + (int list \<times> int list \<times> float64) list" where
  "BF_outer fp ops m n proportion [] states = Inr []"
| "BF_outer fp ops m n proportion (state_from # rest) states =
     (case BF_inner fp ops m n proportion state_from states of
        Inl e \<Rightarrow> Inl e
      | Inr xs \<Rightarrow>
          (case BF_outer fp ops m n proportion rest states of
             Inl e \<Rightarrow> Inl e
           | Inr ys \<Rightarrow> Inr (xs @ ys)))"

definition get_IGC_transition_rates_BF ::
  "float_arith \<Rightarrow> 'pm PMModel_ops \<Rightarrow> 'pm PSJSModel \<Rightarrow> nat \<Rightarrow> bool
     \<Rightarrow> error + (int list \<times> int list \<times> float64) list" where
  "get_IGC_transition_rates_BF fp ops m n proportion =
     (case state_space_shape m of
        None \<Rightarrow> Inl TypeError
      | Some shape \<Rightarrow>
          (case shape of
             [] \<Rightarrow> Inl IndexError
           | k # _ \<Rightarrow>
               if n_js m * 2 < 0 then Inl ValueError
               else let states = product_repeat (range_int k) (nat (n_js m * 2))
                    in BF_outer fp ops m n proportion states states))"

text \<open>The returned dictionary: its keys are strings, its values lists of states or of rates.\<close>

datatype pd_value = States "int list list" | Rates "float64 list"

definition get_process_definition ::
  "float_arith \<Rightarrow> 'pm PMModel_ops \<Rightarrow> 'pm PSJSModel \<Rightarrow> nat \<Rightarrow> bool \<Rightarrow> error + (string \<rightharpoonup> pd_value)" where
  "get_process_definition fp ops m n proportion =
     (case get_IGC_transition_rates_BF fp ops m n proportion of
        Inl e \<Rightarrow> Inl e
      | Inr triples \<Rightarrow>
          let row_states = map fst triples;
              column_states = map (\<lambda>t. fst (snd t)) triples;
              transition_rates = map (\<lambda>t. snd (snd t)) triples
          in if proportion
             then Inr [''row_states'' \<mapsto> States row_states,
                       ''column_states'' \<mapsto> States column_states,
                       ''weights'' \<mapsto> Rates transition_rates]
             else Inr [''row_states'' \<mapsto> States row_states,
                       ''column_states'' \<mapsto> States column_states,
                       ''transition_rates'' \<mapsto> Rates transition_rates])"

subsection \<open>The constructor\<close>

definition init_models ::
  "'pm PMModel_ops \<Rightarrow> 'pm PSJSModel \<Rightarrow> error option \<times> 'pm PSJSModel" where
  "init_models ops m =
     (case unpack_x_js ops m (x_js m) of
        (Some e, m1) \<Rightarrow> (Some e, m1)
      | (None, m1) \<Rightarrow>
          if pm_model m1 \<noteq> ''HKY''
            then (Some (SystemExit ''The point mutation model has not been implemented.''), m1)
          else let m2 = m1\<lparr>state_space_shape :=
                             Some (map (\<lambda>i. 4) (range_int (n_js m1 * 2)))\<rparr>
          in (case divide_force ops m2 of
                Inl e \<Rightarrow> (Some e, m2)
              | Inr (pm_force, igc_force) \<Rightarrow>
                  (case x_pm m2 of
                     None \<Rightarrow> (Some TypeError, m2)
                   | Some xs \<Rightarrow>
                       let m3 = m2\<lparr>PMModel := Some (PMModel_init ops (pm_model m2) xs pm_force)\<rparr>;
                           m4 = m3\<lparr>IGC_force := igc_force\<rparr>
                       in (case state_space_shape m4 of
                             None \<Rightarrow> (Some TypeError, m4)
                           | Some shape \<Rightarrow>
                               if length (remdups shape) \<noteq> 1 then (Some AssertionError, m4)
                               else update_by_x_js ops m4 (x_js m4)))))"

text \<open>\<^verbatim>\<open>PSJSModel(x_js, pm_model, n_orlg, IGC_pm, force, n_js)\<close>: the instance, or the
  exception that left none.\<close>

definition PSJSModel_new ::
  "'pm PMModel_ops \<Rightarrow> real list \<Rightarrow> string \<Rightarrow> int \<Rightarrow> string \<Rightarrow> force_map option \<Rightarrow> int
     \<Rightarrow> error + 'pm PSJSModel" where
  "PSJSModel_new ops x_js0 pm_model0 n_orlg0 IGC_pm0 force0 n_js0 =
     (case init_models ops
             \<lparr>n_js = n_js0, x_js = x_js0, x_pm = None, x_IGC = None, IGC_force = None,
              force = force0, IGC_pm = IGC_pm0, pm_model = pm_model0, n_orlg = n_orlg0,
              PMModel = None, state_space_shape = None\<rparr> of
        (None, m) \<Rightarrow> Inr m
      | (Some e, m) \<Rightarrow> Inl e)"

section \<open>The vocabulary of the specification\<close>

text \<open>
  The two closed forms of the rate calculator, the adjacency table (for each coordinate:
  same paralog other site, other paralog same site, other paralog other site), the IGC
  contribution of a single-coordinate transition in the specification's words, and the
  set of coordinates at which two states differ.
\<close>

definition rate_tract_excludes_n :: "float_arith \<Rightarrow> float64 \<Rightarrow> float64 \<Rightarrow> nat \<Rightarrow> float64" where
  "rate_tract_excludes_n fp IGC_init IGC_p n =
     fl_mul fp (fl_div fp IGC_init IGC_p)
       (fl_sub fp (Finite 1) (np_power fp (fl_sub fp (Finite 1) IGC_p) n))"

definition rate_tract_includes_n :: "float_arith \<Rightarrow> float64 \<Rightarrow> float64 \<Rightarrow> nat \<Rightarrow> float64" where
  "rate_tract_includes_n fp IGC_init IGC_p n =
     fl_mul fp (fl_div fp IGC_init IGC_p) (np_power fp (fl_sub fp (Finite 1) IGC_p) n)"

definition adjacency :: "nat \<Rightarrow> nat \<times> nat \<times> nat" where
  "adjacency pos = [(1, 2, 3), (0, 3, 2), (3, 0, 1), (2, 1, 0)] ! pos"

definition igc_contribution ::
  "float_arith \<Rightarrow> int list \<Rightarrow> int list \<Rightarrow> nat \<Rightarrow> float64 \<Rightarrow> float64 \<Rightarrow> nat \<Rightarrow> float64" where
  "igc_contribution fp state_from state_to pos IGC_init IGC_p n =
     (case adjacency pos of
        (same_paralog_other_site, other_paralog_same_site, other_paralog_other_site) \<Rightarrow>
          if state_to ! pos = state_from ! other_paralog_same_site
             \<and> state_from ! same_paralog_other_site = state_from ! other_paralog_other_site
          then fl_add fp (rate_tract_excludes_n fp IGC_init IGC_p n)
                 (rate_tract_includes_n fp IGC_init IGC_p n)
          else if state_to ! pos = state_from ! other_paralog_same_site
          then rate_tract_excludes_n fp IGC_init IGC_p n
          else Finite 0)"

definition diff_set :: "int list \<Rightarrow> int list \<Rightarrow> nat set" where
  "diff_set state_from state_to = {i. i < 4 \<and> state_from ! i \<noteq> state_to ! i}"


text \<open>
  Properties of the arithmetic of \<^verbatim>\<open>float64\<close> that hold in IEEE 754 binary64
  under every rounding direction: rounding is monotone, 0 and 1 are \<^verbatim>\<open>float64\<close>
  numbers, and a number that rounding returns is a \<^verbatim>\<open>float64\<close> number, so
  rounding returns it unchanged. The exponential of a finite number is not negative and
  is at most 1 for an argument that is at most 0; a power of a number between 0 and 1 is
  between 0 and 1.
\<close>

definition le64 :: "float64 \<Rightarrow> float64 \<Rightarrow> bool" where
  "le64 u v =
     (case (u, v) of
        (NaN, _) \<Rightarrow> False
      | (_, NaN) \<Rightarrow> False
      | (NegInf, _) \<Rightarrow> True
      | (_, PosInf) \<Rightarrow> True
      | (Finite a, Finite b) \<Rightarrow> a \<le> b
      | _ \<Rightarrow> False)"

definition rounding_laws :: "float_arith \<Rightarrow> bool" where
  "rounding_laws fp \<longleftrightarrow>
     (\<forall>a b. a \<le> b \<longrightarrow> le64 (rnd fp a) (rnd fp b))
     \<and> rnd fp 0 = Finite 0
     \<and> rnd fp 1 = Finite 1
     \<and> (\<forall>a r. rnd fp a = Finite r \<longrightarrow> rnd fp r = Finite r)"

definition representable :: "float_arith \<Rightarrow> float64 \<Rightarrow> bool" where
  "representable fp v \<longleftrightarrow> (\<forall>r. v = Finite r \<longrightarrow> rnd fp r = Finite r)"



text \<open>
  The state space of two paralogs and two sites over an alphabet of \<open>k\<close> symbols, in
  the order of four nested loops, and the ordered pairs of a list of states with itself
  that the predicate accepts.
\<close>

definition all_states :: "int \<Rightarrow> int list list" where
  "all_states k =
     concat (map (\<lambda>a. concat (map (\<lambda>b. concat (map (\<lambda>c. map (\<lambda>d. [a, b, c, d])
       [0..k - 1]) [0..k - 1]) ) [0..k - 1])) [0..k - 1])"

definition compatible_pairs :: "'pm PSJSModel \<Rightarrow> int list list \<Rightarrow> (int list \<times> int list) list" where
  "compatible_pairs m states =
     concat (map (\<lambda>state_from.
       map (Pair state_from)
         (filter (\<lambda>state_to. is_transition_compatible m [state_from, state_to] = Inr True) states))
       states)"

definition lookup :: "force_map option \<Rightarrow> int \<Rightarrow> real option" where
  "lookup d k = (case d of None \<Rightarrow> None | Some al \<Rightarrow> map_of al k)"

text \<open>Both submodel names pass the checks of the partitioner.\<close>

definition names_supported :: "'pm PMModel_ops \<Rightarrow> 'pm PSJSModel \<Rightarrow> bool" where
  "names_supported ops m \<longleftrightarrow>
     pm_model m \<in> set (PMModel_supported ops) \<and> pm_model m = ''HKY''
     \<and> IGC_pm m \<in> set PSJSModel_supported"

text \<open>
  For the enumeration: the pairs that the predicate accepts for one origin state; a pair
  on which the predicate returns and, when it accepts, the rate calculator returns; what
  the generator yields and what the two direct calls give, in the same form.
\<close>

definition compatible_from :: "'pm PSJSModel \<Rightarrow> int list \<Rightarrow> int list list \<Rightarrow> (int list \<times> int list) list" where
  "compatible_from m sf sts =
     map (Pair sf) (filter (\<lambda>st. is_transition_compatible m [sf, st] = Inr True) sts)"

definition pair_ok ::
  "float_arith \<Rightarrow> 'pm PMModel_ops \<Rightarrow> 'pm PSJSModel \<Rightarrow> nat \<Rightarrow> bool \<Rightarrow> int list \<Rightarrow> int list
     \<Rightarrow> bool" where
  "pair_ok fp ops m n p sf st \<longleftrightarrow>
     (\<exists>c. is_transition_compatible m [sf, st] = Inr c)
     \<and> (is_transition_compatible m [sf, st] = Inr True
          \<longrightarrow> (\<exists>v. cal_IGC_transition_rate fp ops m [sf, st] n p = Inr v))"

definition observed :: "int list \<times> int list \<times> float64 \<Rightarrow> (int list \<times> int list) \<times> (error + float64)" where
  "observed t = ((fst t, fst (snd t)), Inr (snd (snd t)))"

definition expected ::
  "float_arith \<Rightarrow> 'pm PMModel_ops \<Rightarrow> 'pm PSJSModel \<Rightarrow> nat \<Rightarrow> bool \<Rightarrow> int list \<times> int list
     \<Rightarrow> (int list \<times> int list) \<times> (error + float64)" where
  "expected fp ops m n p pr = (pr, cal_IGC_transition_rate fp ops m [fst pr, snd pr] n p)"

section \<open>An example instance\<close>

text \<open>
  An arithmetic that rounds nothing (every real number is a \<^verbatim>\<open>float64\<close>), with
  the exact exponential and the exact power; a collaborator with a constant rate table
  over four symbols (off-diagonal rate 1), whose lookup accepts the indices numpy accepts
  for an array of four rows and columns; and the instances that the constructor builds
  with it.
\<close>

fun exact_power :: "float64 \<Rightarrow> nat \<Rightarrow> float64" where
  "exact_power (Finite a) n = Finite (a ^ n)"
| "exact_power PosInf n = (if n = 0 then Finite 1 else PosInf)"
| "exact_power NegInf n = (if n = 0 then Finite 1 else inf_of (even n))"
| "exact_power NaN n = (if n = 0 then Finite 1 else NaN)"

definition exact_fp :: float_arith where
  "exact_fp = \<lparr>rnd = Finite, np_exp = (\<lambda>x. Finite (exp x)), np_power = exact_power\<rparr>"

definition example_ops :: "(real list) PMModel_ops" where
  "example_ops =
     \<lparr>PMModel_supported = [''HKY''],
      PMModel_init = (\<lambda>name xs f. xs),
      update_by_x_pm = (\<lambda>pm xs. xs),
      Q_mut = (\<lambda>pm a b.
        if - 4 \<le> a \<and> a < 4 \<and> - 4 \<le> b \<and> b < 4
        then Some (Finite (if a mod 4 = b mod 4 then - 3 else 1)) else None)\<rparr>"

definition example_x_pm :: "real list" where
  "example_x_pm = [ln (3 / 10), ln (1 / 2), ln (1 / 5), ln (19 / 2)]"

definition example_model :: "int \<Rightarrow> int list \<Rightarrow> real list \<Rightarrow> (real list) PSJSModel" where
  "example_model nj shape x_igc =
     \<lparr>n_js = nj, x_js = example_x_pm @ x_igc,
      x_pm = Some example_x_pm, x_IGC = Some x_igc,
      IGC_force = None, force = None, IGC_pm = ''One rate'', pm_model = ''HKY'',
      n_orlg = 3, PMModel = Some example_x_pm,
      state_space_shape = Some shape\<rparr>"

section \<open>Auxiliary facts\<close>

lemma length4E: "length (xs::'a list) = 4 \<Longrightarrow> \<exists>a b c d. xs = [a, b, c, d]"
  by (cases xs; simp; cases "tl xs"; simp; cases "tl (tl xs)"; simp; cases "tl (tl (tl xs))"; auto)

lemma upt4: "[0..<4] = [0, Suc 0, 2, 3]"
  by (simp add: upt_rec)

lemma pos_list_of4:
  "pos_list_of [a0, a1, a2, a3] [b0, b1, b2, b3] =
     (if a0 \<noteq> b0 then [0] else []) @ (if a1 \<noteq> b1 then [1] else []) @
     (if a2 \<noteq> b2 then [2] else []) @ (if a3 \<noteq> b3 then [3] else [])"
  by (simp add: pos_list_of_def upt4)

lemma lt4: "(i::nat) < 4 \<longleftrightarrow> i = 0 \<or> i = 1 \<or> i = 2 \<or> i = 3"
  by auto

lemma diff_set4:
  "diff_set [a0, a1, a2, a3] [b0, b1, b2, b3] =
     (if a0 \<noteq> b0 then {0} else {}) \<union> (if a1 \<noteq> b1 then {1} else {}) \<union>
     (if a2 \<noteq> b2 then {2} else {}) \<union> (if a3 \<noteq> b3 then {3} else {})"
  unfolding diff_set_def lt4 by (auto split: if_splits)

lemma diff_set_pos_list:
  assumes "length state_from = 4" "length state_to = 4"
  shows "diff_set state_from state_to = set (pos_list_of state_from state_to)"
    and "card (diff_set state_from state_to) = length (pos_list_of state_from state_to)"
proof -
  obtain a0 a1 a2 a3 where sf: "state_from = [a0, a1, a2, a3]"
    using length4E [OF assms(1)] by blast
  obtain b0 b1 b2 b3 where st: "state_to = [b0, b1, b2, b3]"
    using length4E [OF assms(2)] by blast
  show "diff_set state_from state_to = set (pos_list_of state_from state_to)"
    unfolding sf st by (simp add: pos_list_of4 diff_set4)
  show "card (diff_set state_from state_to) = length (pos_list_of state_from state_to)"
    unfolding sf st by (simp add: pos_list_of4 diff_set4)
qed

lemma compatible_lengths:
  assumes "is_transition_compatible m [state_from, state_to] = Inr c"
  shows "length state_from = 4 \<and> length state_to = 4"
  using assms unfolding is_transition_compatible_def
  by (auto split: option.splits if_splits simp: Let_def)

lemma compatible_pos_list:
  assumes "is_transition_compatible m [state_from, state_to] = Inr True"
  shows "length (pos_list_of state_from state_to) = 1
       \<or> length (pos_list_of state_from state_to) = 2
         \<and> (pos_list_of state_from state_to = [0, 1] \<and> state_to ! 0 = state_from ! 2
               \<and> state_to ! 1 = state_from ! 3
             \<or> pos_list_of state_from state_to = [2, 3] \<and> state_to ! 2 = state_from ! 0
               \<and> state_to ! 3 = state_from ! 1)"
  using assms unfolding is_transition_compatible_def
  by (simp split: option.splits if_splits add: Let_def)

lemma pos_list_of_bound:
  assumes "pos \<in> set (pos_list_of state_from state_to)" "length state_from = 4"
  shows "pos = 0 \<or> pos = 1 \<or> pos = 2 \<or> pos = 3"
  using assms unfolding pos_list_of_def by auto

lemma cal_single_unfold:
  assumes compat: "is_transition_compatible m [state_from, state_to] = Inr True"
    and one: "pos_list_of state_from state_to = [pos]"
    and pm: "IGC_pm m = ''One rate''"
    and xs: "x_IGC m = Some [x0, x1]"
    and coll: "PMModel m = Some pm"
    and q: "Q_mut ops pm (state_from ! pos) (state_to ! pos) = Some q_mut"
  shows "cal_IGC_transition_rate fp ops m [state_from, state_to] n proportion =
     (case get_other_pos pos of
        Inl e \<Rightarrow> Inl e
      | Inr (a, b, c) \<Rightarrow>
          Inr (rate_or_proportion fp proportion q_mut
            (if state_to ! pos = state_from ! b \<and> state_from ! a = state_from ! c
             then fl_add fp (rate_tract_excludes_n fp (np_exp fp x0) (np_exp fp x1) n)
                    (rate_tract_includes_n fp (np_exp fp x0) (np_exp fp x1) n)
             else if state_to ! pos = state_from ! b \<and> state_from ! a \<noteq> state_from ! c
             then rate_tract_excludes_n fp (np_exp fp x0) (np_exp fp x1) n
             else Finite 0)))"
  unfolding cal_IGC_transition_rate_def rate_tract_excludes_n_def rate_tract_includes_n_def
  by (simp add: compat one pm xs coll q Let_def split: sum.splits prod.splits)

lemma cal_single:
  assumes compat: "is_transition_compatible m [state_from, state_to] = Inr True"
    and one: "pos_list_of state_from state_to = [pos]"
    and pm: "IGC_pm m = ''One rate''"
    and xs: "x_IGC m = Some [x0, x1]"
    and coll: "PMModel m = Some pm"
    and q: "Q_mut ops pm (state_from ! pos) (state_to ! pos) = Some q_mut"
  shows "cal_IGC_transition_rate fp ops m [state_from, state_to] n proportion =
           Inr (rate_or_proportion fp proportion q_mut
                  (igc_contribution fp state_from state_to pos (np_exp fp x0) (np_exp fp x1) n))"
proof -
  have "pos \<in> set (pos_list_of state_from state_to)"
    by (simp add: one)
  then have pos: "pos = 0 \<or> pos = 1 \<or> pos = 2 \<or> pos = 3"
    using pos_list_of_bound compatible_lengths [OF compat] by blast
  note u = cal_single_unfold [OF assms, where fp = fp and n = n and proportion = proportion]
  from pos show ?thesis
  proof (elim disjE)
    assume "pos = 0"
    then show ?thesis
      unfolding u by (simp add: get_other_pos_def igc_contribution_def adjacency_def)
  next
    assume "pos = 1"
    then show ?thesis
      unfolding u by (simp add: get_other_pos_def igc_contribution_def adjacency_def)
  next
    assume "pos = 2"
    then show ?thesis
      unfolding u by (simp add: get_other_pos_def igc_contribution_def adjacency_def)
  next
    assume "pos = 3"
    then show ?thesis
      unfolding u by (simp add: get_other_pos_def igc_contribution_def adjacency_def)
  qed
qed

lemma cal_double:
  assumes compat: "is_transition_compatible m [state_from, state_to] = Inr True"
    and two: "length (pos_list_of state_from state_to) = 2"
    and pm: "IGC_pm m = ''One rate''"
    and xs: "x_IGC m = Some [x0, x1]"
  shows "cal_IGC_transition_rate fp ops m [state_from, state_to] n proportion =
           Inr (rate_or_proportion fp proportion (Finite 0) (rate_tract_includes_n fp (np_exp fp x0) (np_exp fp x1) n))"
  using compatible_pos_list [OF compat] two
  unfolding cal_IGC_transition_rate_def
  by (auto simp add: compat pm xs rate_tract_includes_n_def Let_def)

lemma singleton_list: "length xs = 1 \<Longrightarrow> set xs = {p} \<Longrightarrow> xs = [p]"
  by (cases xs) auto

lemma example_model_new:
  "PSJSModel_new example_ops (example_x_pm @ [a, b]) ''HKY'' 3 ''One rate'' None 2
     = Inr (example_model 2 [4, 4, 4, 4] [a, b])"
  by (simp add: PSJSModel_new_def init_models_def unpack_x_js_def update_by_x_js_def
      divide_force_def example_ops_def example_x_pm_def example_model_def
      PSJSModel_supported_def range_int_def upt4 Let_def)

lemma example_compatible:
  "is_transition_compatible (example_model 2 [4, 4, 4, 4] xs) [[a0, a1, a2, a3], [b0, b1, b2, b3]]
     = Inr (if [a0, a1, a2, a3] = [b0, b1, b2, b3] then False
            else if length (pos_list_of [a0, a1, a2, a3] [b0, b1, b2, b3]) > 2 then False
            else if length (pos_list_of [a0, a1, a2, a3] [b0, b1, b2, b3]) = 2
              then (pos_list_of [a0, a1, a2, a3] [b0, b1, b2, b3] = [0, 1] \<and> b0 = a2 \<and> b1 = a3
                 \<or> pos_list_of [a0, a1, a2, a3] [b0, b1, b2, b3] = [2, 3] \<and> b2 = a0 \<and> b3 = a1)
            else True)"
  unfolding is_transition_compatible_def
  by (cases "a0 = b0"; cases "a1 = b1"; cases "a2 = b2"; cases "a3 = b3";
      simp add: example_model_def pos_list_of4 Let_def)

section \<open>The compatibility predicate\<close>

text \<open>
  Claim C2. For a model whose state space has four coordinates and two states of four
  coordinates, \<open>is_transition_compatible\<close> returns False when the states are equal (no
  coordinate differs), True when exactly one coordinate differs, False when more than two
  differ, and, when exactly two differ, True exactly when the differing pair is \<open>{0, 1}\<close>
  and the destination takes the values of coordinates 2 and 3 of the origin, or the
  differing pair is \<open>{2, 3}\<close> and the destination takes the values of coordinates 0 and 1.
\<close>

theorem is_transition_compatible_cases:
  assumes "state_space_shape m = Some shape" "length shape = 4"
    "length state_from = 4" "length state_to = 4"
  shows "is_transition_compatible m [state_from, state_to] =
     Inr (if card (diff_set state_from state_to) = 0 then False
          else if card (diff_set state_from state_to) = 1 then True
          else if card (diff_set state_from state_to) > 2 then False
          else (diff_set state_from state_to = {0, 1} \<and> state_to ! 0 = state_from ! 2
                  \<and> state_to ! 1 = state_from ! 3
             \<or> diff_set state_from state_to = {2, 3} \<and> state_to ! 2 = state_from ! 0
                  \<and> state_to ! 3 = state_from ! 1))"
proof -
  obtain a0 a1 a2 a3 where sf: "state_from = [a0, a1, a2, a3]"
    using length4E [OF assms(3)] by blast
  obtain b0 b1 b2 b3 where st: "state_to = [b0, b1, b2, b3]"
    using length4E [OF assms(4)] by blast
  show ?thesis
    unfolding sf st is_transition_compatible_def
    by (cases "a0 = b0"; cases "a1 = b1"; cases "a2 = b2"; cases "a3 = b3";
        simp add: assms(1,2) pos_list_of4 diff_set4 Let_def doubleton_eq_iff)
qed

theorem is_transition_compatible_cases_witness:
  "is_transition_compatible (example_model 2 [4, 4, 4, 4] [0, 0]) [[0, 2, 2, 3], [2, 3, 2, 3]] = Inr True
   \<and> is_transition_compatible (example_model 2 [4, 4, 4, 4] [0, 0]) [[0, 2, 2, 3], [0, 3, 3, 3]] = Inr False
   \<and> is_transition_compatible (example_model 2 [4, 4, 4, 4] [0, 0]) [[0, 2, 2, 3], [0, 2, 2, 3]] = Inr False"
  using is_transition_compatible_cases [of "example_model 2 [4, 4, 4, 4] [0, 0]" "[4, 4, 4, 4]"
      "[0, 2, 2, 3]" "[2, 3, 2, 3]"]
    is_transition_compatible_cases [of "example_model 2 [4, 4, 4, 4] [0, 0]" "[4, 4, 4, 4]"
      "[0, 2, 2, 3]" "[0, 3, 3, 3]"]
    is_transition_compatible_cases [of "example_model 2 [4, 4, 4, 4] [0, 0]" "[4, 4, 4, 4]"
      "[0, 2, 2, 3]" "[0, 2, 2, 3]"]
  by (simp add: example_model_def diff_set4 doubleton_eq_iff)


section \<open>The rate calculator\<close>

text \<open>
  Claim C1. For a compatible transition in which exactly the coordinate \<open>pos\<close> differs,
  the rate (proportion = False) is the collaborator's rate \<open>Q_mut[state_from[pos],
  state_to[pos]]\<close> plus the IGC contribution of the specification, where the triple that
  \<open>get_other_pos\<close> returns is the one of the adjacency table; the contribution is one of
  0, the rate of a tract that excludes the other site, or the sum of the two tract rates.
  The sums are those of \<^verbatim>\<open>float64\<close>, whatever its rounding.
\<close>

theorem cal_IGC_transition_rate_single:
  assumes compat: "is_transition_compatible m [state_from, state_to] = Inr True"
    and one: "diff_set state_from state_to = {pos}"
    and pm: "IGC_pm m = ''One rate''"
    and xs: "x_IGC m = Some [x0, x1]"
    and coll: "PMModel m = Some pm"
    and q: "Q_mut ops pm (state_from ! pos) (state_to ! pos) = Some q_mut"
  shows "cal_IGC_transition_rate fp ops m [state_from, state_to] n False =
           Inr (fl_add fp q_mut
                  (igc_contribution fp state_from state_to pos (np_exp fp x0) (np_exp fp x1) n))
       \<and> get_other_pos pos = Inr (adjacency pos)
       \<and> igc_contribution fp state_from state_to pos (np_exp fp x0) (np_exp fp x1) n \<in>
           {Finite 0, rate_tract_excludes_n fp (np_exp fp x0) (np_exp fp x1) n,
            fl_add fp (rate_tract_excludes_n fp (np_exp fp x0) (np_exp fp x1) n)
              (rate_tract_includes_n fp (np_exp fp x0) (np_exp fp x1) n)}"
proof -
  have len: "length state_from = 4" "length state_to = 4"
    using compatible_lengths [OF compat] by simp_all
  have "length (pos_list_of state_from state_to) = 1"
    using diff_set_pos_list(2) [OF len] one by simp
  moreover have "set (pos_list_of state_from state_to) = {pos}"
    using diff_set_pos_list(1) [OF len] one by simp
  ultimately have pl: "pos_list_of state_from state_to = [pos]"
    by (rule singleton_list)
  have "pos \<in> diff_set state_from state_to"
    using one by simp
  then have "pos < 4"
    by (simp add: diff_set_def)
  then have pos: "pos = 0 \<or> pos = 1 \<or> pos = 2 \<or> pos = 3"
    by (simp add: lt4)
  have a: "cal_IGC_transition_rate fp ops m [state_from, state_to] n False =
           Inr (fl_add fp q_mut
                  (igc_contribution fp state_from state_to pos (np_exp fp x0) (np_exp fp x1) n))"
    using cal_single [OF compat pl pm xs coll q, where fp = fp and n = n and proportion = False]
    by (simp add: rate_or_proportion_def)
  have b: "get_other_pos pos = Inr (adjacency pos)"
    using pos by (auto simp add: get_other_pos_def adjacency_def)
  have c: "igc_contribution fp state_from state_to pos (np_exp fp x0) (np_exp fp x1) n \<in>
           {Finite 0, rate_tract_excludes_n fp (np_exp fp x0) (np_exp fp x1) n,
            fl_add fp (rate_tract_excludes_n fp (np_exp fp x0) (np_exp fp x1) n)
              (rate_tract_includes_n fp (np_exp fp x0) (np_exp fp x1) n)}"
    by (simp add: igc_contribution_def split: prod.splits)
  from a b c show ?thesis by simp
qed

theorem cal_IGC_transition_rate_single_witness:
  "cal_IGC_transition_rate exact_fp example_ops (example_model 2 [4, 4, 4, 4] [ln (3 / 10), ln (1 / 30)])
     [[0, 2, 2, 3], [0, 2, 2, 1]] 1 False = Inr (Finite 1)
   \<and> cal_IGC_transition_rate exact_fp example_ops (example_model 2 [4, 4, 4, 4] [ln (3 / 10), ln (1 / 30)])
     [[0, 2, 2, 3], [0, 2, 2, 2]] 1 False = Inr (Finite (13 / 10))"
proof -
  have c1: "is_transition_compatible (example_model 2 [4, 4, 4, 4] [ln (3 / 10), ln (1 / 30)])
     [[0, 2, 2, 3], [0, 2, 2, 1]] = Inr True"
    by (simp add: example_compatible pos_list_of4)
  have c2: "is_transition_compatible (example_model 2 [4, 4, 4, 4] [ln (3 / 10), ln (1 / 30)])
     [[0, 2, 2, 3], [0, 2, 2, 2]] = Inr True"
    by (simp add: example_compatible pos_list_of4)
  have d1: "diff_set [0, 2, 2, 3] [0, 2, 2, 1] = {3}"
    by (simp add: diff_set4)
  have d2: "diff_set [0, 2, 2, 3] [0, 2, 2, 2] = {3}"
    by (simp add: diff_set4)
  have e: "IGC_pm (example_model 2 [4, 4, 4, 4] [ln (3 / 10), ln (1 / 30)]) = ''One rate''"
    "x_IGC (example_model 2 [4, 4, 4, 4] [ln (3 / 10), ln (1 / 30)]) = Some [ln (3 / 10), ln (1 / 30)]"
    "PMModel (example_model 2 [4, 4, 4, 4] [ln (3 / 10), ln (1 / 30)]) = Some example_x_pm"
    by (simp_all add: example_model_def)
  have q1: "Q_mut example_ops example_x_pm ([0, 2, 2, 3] ! 3) ([0, 2, 2, 1] ! 3) = Some (Finite 1)"
    by (simp add: example_ops_def)
  have q2: "Q_mut example_ops example_x_pm ([0, 2, 2, 3] ! 3) ([0, 2, 2, 2] ! 3) = Some (Finite 1)"
    by (simp add: example_ops_def)
  show ?thesis
    using cal_IGC_transition_rate_single [OF c1 d1 e q1, where fp = exact_fp and n = 1]
      cal_IGC_transition_rate_single [OF c2 d2 e q2, where fp = exact_fp and n = 1]
    by (simp add: igc_contribution_def adjacency_def rate_tract_excludes_n_def
        rate_tract_includes_n_def exact_fp_def fl_sub_def)
qed


lemma example_fields:
  "IGC_pm (example_model nj shape xs) = ''One rate''"
  "x_IGC (example_model nj shape xs) = Some xs"
  "PMModel (example_model nj shape xs) = Some example_x_pm"
  "state_space_shape (example_model nj shape xs) = Some shape"
  "n_js (example_model nj shape xs) = nj"
  by (simp_all add: example_model_def)


lemma exact_rounding_laws: "rounding_laws exact_fp"
  by (simp add: rounding_laws_def exact_fp_def le64_def)


lemma fl_mul_representable:
  assumes "rounding_laws fp"
  shows "representable fp (fl_mul fp u v)"
  using assms
  by (cases u; cases v) (auto simp add: representable_def rounding_laws_def inf_of_def)



lemma fl_add_zero_left:
  assumes "representable fp w"
  shows "fl_add fp (Finite 0) w = w"
  using assms by (cases w) (simp_all add: representable_def)

lemma fl_div_self:
  assumes "rounding_laws fp"
  shows "fl_div fp w w = (case w of Finite r \<Rightarrow> if r = 0 then NaN else Finite 1 | _ \<Rightarrow> NaN)"
  using assms by (cases w) (simp_all add: rounding_laws_def)

text \<open>
  Claim C3, as amended. For a compatible transition in which exactly two coordinates
  differ, the rate (proportion = False) is exactly the rate of a tract that includes the
  other site, \<open>IGC_init / IGC_p * (1 - IGC_p) ** n\<close> as \<^verbatim>\<open>float64\<close> computes it,
  the point mutation contributing nothing. The proportion (proportion = True) is 1 when
  that rate is a finite number other than zero, and \<^verbatim>\<open>nan\<close> when the rate is
  zero, infinite or \<^verbatim>\<open>nan\<close>.
\<close>

theorem cal_IGC_transition_rate_double:
  assumes compat: "is_transition_compatible m [state_from, state_to] = Inr True"
    and two: "card (diff_set state_from state_to) = 2"
    and pm: "IGC_pm m = ''One rate''"
    and xs: "x_IGC m = Some [x0, x1]"
    and laws: "rounding_laws fp"
  shows "cal_IGC_transition_rate fp ops m [state_from, state_to] n False =
           Inr (rate_tract_includes_n fp (np_exp fp x0) (np_exp fp x1) n)
       \<and> rate_tract_includes_n fp (np_exp fp x0) (np_exp fp x1) n =
           fl_mul fp (fl_div fp (np_exp fp x0) (np_exp fp x1))
             (np_power fp (fl_sub fp (Finite 1) (np_exp fp x1)) n)
       \<and> cal_IGC_transition_rate fp ops m [state_from, state_to] n True =
           Inr (case rate_tract_includes_n fp (np_exp fp x0) (np_exp fp x1) n of
                  Finite r \<Rightarrow> if r = 0 then NaN else Finite 1
                | _ \<Rightarrow> NaN)"
proof -
  have len: "length state_from = 4" "length state_to = 4"
    using compatible_lengths [OF compat] by simp_all
  have l2: "length (pos_list_of state_from state_to) = 2"
    using diff_set_pos_list(2) [OF len] two by simp
  note c = cal_double [OF compat l2 pm xs]
  have r: "representable fp (rate_tract_includes_n fp (np_exp fp x0) (np_exp fp x1) n)"
    unfolding rate_tract_includes_n_def using laws by (rule fl_mul_representable)
  have z: "fl_add fp (Finite 0) (rate_tract_includes_n fp (np_exp fp x0) (np_exp fp x1) n)
         = rate_tract_includes_n fp (np_exp fp x0) (np_exp fp x1) n"
    using r by (rule fl_add_zero_left)
  have a: "cal_IGC_transition_rate fp ops m [state_from, state_to] n False =
           Inr (rate_tract_includes_n fp (np_exp fp x0) (np_exp fp x1) n)"
    unfolding c by (simp add: rate_or_proportion_def z)
  have b: "cal_IGC_transition_rate fp ops m [state_from, state_to] n True =
           Inr (case rate_tract_includes_n fp (np_exp fp x0) (np_exp fp x1) n of
                  Finite r \<Rightarrow> if r = 0 then NaN else Finite 1
                | _ \<Rightarrow> NaN)"
    unfolding c by (simp add: rate_or_proportion_def z fl_div_self [OF laws])
  from a b show ?thesis
    by (simp add: rate_tract_includes_n_def)
qed

theorem cal_IGC_transition_rate_double_witness:
  "cal_IGC_transition_rate exact_fp example_ops
     (example_model 2 [4, 4, 4, 4] [ln (3 / 10), ln (1 / 30)])
     [[0, 2, 1, 3], [1, 3, 1, 3]] 1 False = Inr (Finite (87 / 10))
   \<and> cal_IGC_transition_rate exact_fp example_ops
     (example_model 2 [4, 4, 4, 4] [ln (3 / 10), ln (1 / 30)])
     [[0, 2, 1, 3], [1, 3, 1, 3]] 1 True = Inr (Finite 1)"
proof -
  have c: "is_transition_compatible (example_model 2 [4, 4, 4, 4] [ln (3 / 10), ln (1 / 30)])
     [[0, 2, 1, 3], [1, 3, 1, 3]] = Inr True"
    by (simp add: example_compatible pos_list_of4)
  have d: "card (diff_set [0, 2, 1, 3] [1, 3, 1, 3]) = 2"
    by (simp add: diff_set4)
  show ?thesis
    using cal_IGC_transition_rate_double [OF c d example_fields(1,2) exact_rounding_laws,
        where ops = example_ops and n = 1]
    by (simp add: rate_tract_includes_n_def exact_fp_def fl_sub_def)
qed

text \<open>
  The claim as stated fails on the instance built from the decay parameter
  \<open>log IGC_p = 0\<close>: then \<open>IGC_p = 1\<close>, the rate of a whole-tract copy at
  separation 1 is \<open>1 / 1 * (1 - 1) ** 1 = 0\<close>, and its proportion is
  \<open>0 / (0 + 0)\<close>, which is \<^verbatim>\<open>nan\<close>, not 1. Every step is exact in
  \<^verbatim>\<open>float64\<close>.
\<close>

theorem proportion_double_counterexample:
  "PSJSModel_new example_ops (example_x_pm @ [0, 0]) ''HKY'' 3 ''One rate'' None 2
     = Inr (example_model 2 [4, 4, 4, 4] [0, 0])
   \<and> is_transition_compatible (example_model 2 [4, 4, 4, 4] [0, 0]) [[0, 0, 1, 1], [1, 1, 1, 1]]
     = Inr True
   \<and> card (diff_set [0, 0, 1, 1] [1, 1, 1, 1]) = 2
   \<and> cal_IGC_transition_rate exact_fp example_ops (example_model 2 [4, 4, 4, 4] [0, 0])
       [[0, 0, 1, 1], [1, 1, 1, 1]] 1 True = Inr NaN"
proof -
  have c: "is_transition_compatible (example_model 2 [4, 4, 4, 4] [0, 0]) [[0, 0, 1, 1], [1, 1, 1, 1]]
     = Inr True"
    by (simp add: example_compatible pos_list_of4)
  have r: "cal_IGC_transition_rate exact_fp example_ops (example_model 2 [4, 4, 4, 4] [0, 0])
       [[0, 0, 1, 1], [1, 1, 1, 1]] 1 True = Inr NaN"
    unfolding cal_IGC_transition_rate_def
    by (simp add: c example_fields pos_list_of4 rate_or_proportion_def exact_fp_def fl_sub_def)
  show ?thesis
    using c r by (simp add: example_model_new diff_set4)
qed

lemma length1E: "length xs = 1 \<Longrightarrow> \<exists>p. xs = [p]"
  by (cases xs) auto


lemma get_other_pos_adjacency:
  assumes "pos < 4"
  shows "get_other_pos pos = Inr (adjacency pos)"
proof -
  from assms have "pos = 0 \<or> pos = 1 \<or> pos = 2 \<or> pos = 3"
    by (simp add: lt4)
  then show ?thesis
    by (auto simp add: get_other_pos_def adjacency_def)
qed

lemma cal_no_exit_single:
  assumes compat: "is_transition_compatible m [state_from, state_to] = Inr True"
    and one: "pos_list_of state_from state_to = [pos]"
  shows "cal_IGC_transition_rate fp ops m [state_from, state_to] n proportion
           \<noteq> Inl (SystemExit ''Transition not compatible!'')
       \<and> cal_IGC_transition_rate fp ops m [state_from, state_to] n proportion
           \<noteq> Inl (SystemExit ''Transition not compatible! 2'')"
proof -
  have "pos \<in> set (pos_list_of state_from state_to)"
    by (simp add: one)
  then have "pos = 0 \<or> pos = 1 \<or> pos = 2 \<or> pos = 3"
    using pos_list_of_bound compatible_lengths [OF compat] by blast
  then have "pos < 4"
    by auto
  then have g: "get_other_pos pos = Inr (adjacency pos)"
    by (rule get_other_pos_adjacency)
  obtain a b c where abc: "adjacency pos = (a, b, c)"
    by (cases "adjacency pos") auto
  show ?thesis
    unfolding cal_IGC_transition_rate_def
    by (simp add: compat one Let_def g abc split: option.split list.split)
qed

lemma cal_no_exit_double:
  assumes compat: "is_transition_compatible m [state_from, state_to] = Inr True"
    and two: "length (pos_list_of state_from state_to) = 2"
  shows "cal_IGC_transition_rate fp ops m [state_from, state_to] n proportion
           \<noteq> Inl (SystemExit ''Transition not compatible!'')
       \<and> cal_IGC_transition_rate fp ops m [state_from, state_to] n proportion
           \<noteq> Inl (SystemExit ''Transition not compatible! 2'')"
proof -
  from compatible_pos_list [OF compat] two
  have c: "pos_list_of state_from state_to = [0, 1] \<and> state_to ! 0 = state_from ! 2
               \<and> state_to ! 1 = state_from ! 3
             \<or> pos_list_of state_from state_to = [2, 3] \<and> state_to ! 2 = state_from ! 0
               \<and> state_to ! 3 = state_from ! 1"
    by simp
  from c show ?thesis
    unfolding cal_IGC_transition_rate_def
    by (auto simp add: compat two Let_def split: option.split list.split)
qed

lemma cal_no_exit:
  assumes compat: "is_transition_compatible m [state_from, state_to] = Inr True"
  shows "cal_IGC_transition_rate fp ops m [state_from, state_to] n proportion
           \<noteq> Inl (SystemExit ''Transition not compatible!'')
       \<and> cal_IGC_transition_rate fp ops m [state_from, state_to] n proportion
           \<noteq> Inl (SystemExit ''Transition not compatible! 2'')"
proof -
  from compatible_pos_list [OF compat]
  have "length (pos_list_of state_from state_to) = 1
      \<or> length (pos_list_of state_from state_to) = 2"
    by blast
  then show ?thesis
  proof
    assume "length (pos_list_of state_from state_to) = 1"
    then obtain pos where "pos_list_of state_from state_to = [pos]"
      using length1E by blast
    then show ?thesis
      by (rule cal_no_exit_single [OF compat])
  next
    assume "length (pos_list_of state_from state_to) = 2"
    then show ?thesis
      by (rule cal_no_exit_double [OF compat])
  qed
qed

lemma cal_returns:
  assumes compat: "is_transition_compatible m [state_from, state_to] = Inr True"
    and pm: "IGC_pm m = ''One rate''"
    and xs: "x_IGC m = Some [x0, x1]"
    and coll: "PMModel m = Some pm"
    and q: "\<forall>i<4. Q_mut ops pm (state_from ! i) (state_to ! i) \<noteq> None"
  shows "\<exists>v. cal_IGC_transition_rate fp ops m [state_from, state_to] n proportion = Inr v"
proof -
  from compatible_pos_list [OF compat]
  have "length (pos_list_of state_from state_to) = 1
      \<or> length (pos_list_of state_from state_to) = 2"
    by blast
  then show ?thesis
  proof
    assume "length (pos_list_of state_from state_to) = 1"
    then obtain pos where one: "pos_list_of state_from state_to = [pos]"
      using length1E by blast
    then have "pos \<in> set (pos_list_of state_from state_to)"
      by simp
    then have "pos = 0 \<or> pos = 1 \<or> pos = 2 \<or> pos = 3"
      using pos_list_of_bound compatible_lengths [OF compat] by blast
    then have "pos < 4"
      by auto
    with q obtain q_mut where "Q_mut ops pm (state_from ! pos) (state_to ! pos) = Some q_mut"
      by auto
    from cal_single [OF compat one pm xs coll this, where fp = fp and n = n and proportion = proportion] show ?thesis
      by simp
  next
    assume "length (pos_list_of state_from state_to) = 2"
    from cal_double [OF compat this pm xs, where fp = fp and n = n and proportion = proportion] show ?thesis
      by simp
  qed
qed


lemma cal_lookup_fails:
  assumes compat: "is_transition_compatible m [state_from, state_to] = Inr True"
    and one: "pos_list_of state_from state_to = [pos]"
    and pm: "IGC_pm m = ''One rate''"
    and xs: "x_IGC m = Some [x0, x1]"
    and coll: "PMModel m = Some pm"
    and q: "Q_mut ops pm (state_from ! pos) (state_to ! pos) = None"
  shows "cal_IGC_transition_rate fp ops m [state_from, state_to] n proportion = Inl IndexError"
proof -
  have "pos \<in> set (pos_list_of state_from state_to)"
    by (simp add: one)
  then have "pos = 0 \<or> pos = 1 \<or> pos = 2 \<or> pos = 3"
    using pos_list_of_bound compatible_lengths [OF compat] by blast
  then have "pos < 4"
    by auto
  then have g: "get_other_pos pos = Inr (adjacency pos)"
    by (rule get_other_pos_adjacency)
  obtain a b c where abc: "adjacency pos = (a, b, c)"
    by (cases "adjacency pos") auto
  show ?thesis
    unfolding cal_IGC_transition_rate_def
    by (simp add: compat one pm xs coll q Let_def g abc)
qed

lemma diff_set_single:
  assumes "length state_from = 4" "length state_to = 4"
    and "diff_set state_from state_to = {pos}"
  shows "pos_list_of state_from state_to = [pos]"
proof -
  have "length (pos_list_of state_from state_to) = 1"
    using diff_set_pos_list(2) [OF assms(1,2)] assms(3) by simp
  moreover have "set (pos_list_of state_from state_to) = {pos}"
    using diff_set_pos_list(1) [OF assms(1,2)] assms(3) by simp
  ultimately show ?thesis
    by (rule singleton_list)
qed

lemma cal_returns_iff:
  assumes compat: "is_transition_compatible m [state_from, state_to] = Inr True"
    and pm: "IGC_pm m = ''One rate''"
    and xs: "x_IGC m = Some [x0, x1]"
    and coll: "PMModel m = Some pm"
  shows "((\<forall>pos. diff_set state_from state_to = {pos}
             \<longrightarrow> Q_mut ops pm (state_from ! pos) (state_to ! pos) \<noteq> None)
          \<longrightarrow> (\<exists>v. cal_IGC_transition_rate fp ops m [state_from, state_to] n proportion = Inr v))
       \<and> (\<forall>pos. diff_set state_from state_to = {pos}
             \<and> Q_mut ops pm (state_from ! pos) (state_to ! pos) = None
          \<longrightarrow> cal_IGC_transition_rate fp ops m [state_from, state_to] n proportion
                = Inl IndexError)"
proof -
  have len: "length state_from = 4" "length state_to = 4"
    using compatible_lengths [OF compat] by simp_all
  from compatible_pos_list [OF compat]
  have "length (pos_list_of state_from state_to) = 1
      \<or> length (pos_list_of state_from state_to) = 2"
    by blast
  then show ?thesis
  proof
    assume "length (pos_list_of state_from state_to) = 1"
    then obtain p where one: "pos_list_of state_from state_to = [p]"
      using length1E by blast
    have d: "diff_set state_from state_to = {p}"
      using diff_set_pos_list(1) [OF len] one by simp
    show ?thesis
    proof (cases "Q_mut ops pm (state_from ! p) (state_to ! p)")
      case None
      from cal_lookup_fails [OF compat one pm xs coll None, where fp = fp and n = n
          and proportion = proportion]
      show ?thesis
        using d None by auto
    next
      case (Some q_mut)
      from cal_single [OF compat one pm xs coll Some, where fp = fp and n = n
          and proportion = proportion]
      show ?thesis
        using d Some by auto
    qed
  next
    assume two: "length (pos_list_of state_from state_to) = 2"
    then have "card (diff_set state_from state_to) = 2"
      using diff_set_pos_list(2) [OF len] by simp
    then have "diff_set state_from state_to \<noteq> {pos}" for pos
      by auto
    with cal_double [OF compat two pm xs, where fp = fp and n = n and proportion = proportion]
    show ?thesis
      by simp
  qed
qed

text \<open>
  Claim C8, as amended. For a transition that \<open>is_transition_compatible\<close> accepts, the
  rate calculator never takes the exits \<open>Transition not compatible!\<close> (a two-coordinate
  pattern that the predicate should have excluded) and \<open>Transition not compatible! 2\<close>
  (more than two differing coordinates). On an instance with the IGC parameterization
  \<open>One rate\<close>, two IGC parameters and a collaborator, the call returns a value when
  two coordinates differ, and when one coordinate \<open>pos\<close> differs it returns a value if
  the collaborator's rate table has the entry \<open>Q_mut[state_from[pos], state_to[pos]]\<close>
  and raises \<open>IndexError\<close> if it has not.
\<close>

theorem compatible_reaches_return:
  assumes compat: "is_transition_compatible m [state_from, state_to] = Inr True"
  shows "cal_IGC_transition_rate fp ops m [state_from, state_to] n proportion
           \<noteq> Inl (SystemExit ''Transition not compatible!'')
       \<and> cal_IGC_transition_rate fp ops m [state_from, state_to] n proportion
           \<noteq> Inl (SystemExit ''Transition not compatible! 2'')
       \<and> (IGC_pm m = ''One rate'' \<and> x_IGC m = Some [x0, x1] \<and> PMModel m = Some pm \<longrightarrow>
            ((\<forall>pos. diff_set state_from state_to = {pos}
                 \<longrightarrow> Q_mut ops pm (state_from ! pos) (state_to ! pos) \<noteq> None)
              \<longrightarrow> (\<exists>v. cal_IGC_transition_rate fp ops m [state_from, state_to] n proportion
                        = Inr v))
            \<and> (\<forall>pos. diff_set state_from state_to = {pos}
                 \<and> Q_mut ops pm (state_from ! pos) (state_to ! pos) = None
              \<longrightarrow> cal_IGC_transition_rate fp ops m [state_from, state_to] n proportion
                    = Inl IndexError))"
  using cal_no_exit [OF compat, of fp ops n proportion]
    cal_returns_iff [OF compat, where ?x0.0 = x0 and ?x1.0 = x1 and pm = pm and ops = ops
      and fp = fp and n = n and proportion = proportion]
  by blast

theorem compatible_reaches_return_witness:
  "is_transition_compatible (example_model 2 [4, 4, 4, 4] [ln (3 / 10), ln (1 / 30)])
     [[0, 2, 2, 3], [0, 2, 2, 1]] = Inr True
   \<and> (\<exists>v. cal_IGC_transition_rate exact_fp example_ops
          (example_model 2 [4, 4, 4, 4] [ln (3 / 10), ln (1 / 30)])
          [[0, 2, 2, 3], [0, 2, 2, 1]] 50 True = Inr v)"
proof -
  have c: "is_transition_compatible (example_model 2 [4, 4, 4, 4] [ln (3 / 10), ln (1 / 30)])
     [[0, 2, 2, 3], [0, 2, 2, 1]] = Inr True"
    by (simp add: example_compatible pos_list_of4)
  have d: "diff_set [0, 2, 2, 3] [0, 2, 2, 1] = {3}"
    by (simp add: diff_set4)
  have q: "Q_mut example_ops example_x_pm ([0, 2, 2, 3] ! 3) ([0, 2, 2, 1] ! 3) \<noteq> None"
    by (simp add: example_ops_def)
  show ?thesis
    using c compatible_reaches_return [OF c, where fp = exact_fp and ops = example_ops
        and n = 50 and proportion = True and ?x0.0 = "ln (3 / 10)" and ?x1.0 = "ln (1 / 30)"
        and pm = example_x_pm] q
    by (simp add: example_fields d)
qed

text \<open>
  The claim as stated fails on a constructed instance: the predicate compares the
  coordinates and does not look at the alphabet, so it accepts the transition from
  (0, 2, 2, 3) to (0, 2, 2, 7), and the rate calculator raises \<open>IndexError\<close> at the
  lookup of \<open>Q_mut[3, 7]\<close> in a table of four rows and columns.
\<close>

theorem compatible_return_counterexample:
  "PSJSModel_new example_ops (example_x_pm @ [0, 0]) ''HKY'' 3 ''One rate'' None 2
     = Inr (example_model 2 [4, 4, 4, 4] [0, 0])
   \<and> is_transition_compatible (example_model 2 [4, 4, 4, 4] [0, 0]) [[0, 2, 2, 3], [0, 2, 2, 7]]
     = Inr True
   \<and> cal_IGC_transition_rate exact_fp example_ops (example_model 2 [4, 4, 4, 4] [0, 0])
       [[0, 2, 2, 3], [0, 2, 2, 7]] 1 False = Inl IndexError"
proof -
  have c: "is_transition_compatible (example_model 2 [4, 4, 4, 4] [0, 0]) [[0, 2, 2, 3], [0, 2, 2, 7]]
     = Inr True"
    by (simp add: example_compatible pos_list_of4)
  have one: "pos_list_of [0, 2, 2, 3] [0, 2, 2, 7] = [3]"
    by (simp add: pos_list_of4)
  have q: "Q_mut example_ops example_x_pm ([0, 2, 2, 3] ! 3) ([0, 2, 2, 7] ! 3) = None"
    by (simp add: example_ops_def)
  from cal_lookup_fails [OF c one example_fields(1,2,3) q, where fp = exact_fp and n = 1
      and proportion = False] c
  show ?thesis
    by (simp add: example_model_new)
qed




















lemma names_supported_One_rate:
  "names_supported ops m \<Longrightarrow> IGC_pm m = ''One rate''"
  by (simp add: names_supported_def PSJSModel_supported_def)

lemma unpack_x_js_unsupported:
  assumes "\<not> names_supported ops m"
  shows "\<exists>e. unpack_x_js ops m x = (Some e, m)"
  using assms
  by (auto simp add: unpack_x_js_def names_supported_def PSJSModel_supported_def Let_def)

lemma unpack_x_js_supported:
  assumes "names_supported ops m"
  shows "unpack_x_js ops m x =
           (if length x = 6 then None else Some AssertionError,
            m\<lparr>x_pm := Some (take 4 x), x_IGC := Some (drop 4 x), x_js := x\<rparr>)"
  using assms
  by (auto simp add: unpack_x_js_def names_supported_def PSJSModel_supported_def Let_def)

section \<open>The parameter partitioner\<close>

text \<open>
  Claim C5. \<open>unpack_x_js\<close> returns normally exactly when the point-mutation name is
  supported and is \<open>HKY\<close>, the IGC name is supported (\<open>One rate\<close>) and the vector
  has 4 + 2 entries; in every other case it raises. When it returns, the stored
  point-mutation slice is the first 4 entries, the stored IGC slice the remaining 2, and
  the two slices concatenate back to the stored vector.
\<close>

theorem unpack_x_js_partition:
  "(fst (unpack_x_js ops m x) = None \<longleftrightarrow> names_supported ops m \<and> length x = 4 + 2)
   \<and> (fst (unpack_x_js ops m x) = None \<longrightarrow>
        x_pm (snd (unpack_x_js ops m x)) = Some (take 4 x)
        \<and> x_IGC (snd (unpack_x_js ops m x)) = Some (drop 4 x)
        \<and> x_js (snd (unpack_x_js ops m x)) = x
        \<and> length (take 4 x) = 4 \<and> length (drop 4 x) = 2
        \<and> take 4 x @ drop 4 x = x_js (snd (unpack_x_js ops m x)))"
proof (cases "names_supported ops m")
  case True
  show ?thesis
    unfolding unpack_x_js_supported [OF True] using True by auto
next
  case False
  from unpack_x_js_unsupported [OF False, of x] obtain e
    where "unpack_x_js ops m x = (Some e, m)" by blast
  with False show ?thesis by simp
qed

theorem unpack_x_js_partition_witness:
  "fst (unpack_x_js example_ops (example_model 2 [4, 4, 4, 4] [0, 0]) [1, 2, 3, 4, 5, 6]) = None
   \<and> x_pm (snd (unpack_x_js example_ops (example_model 2 [4, 4, 4, 4] [0, 0]) [1, 2, 3, 4, 5, 6]))
       = Some [1, 2, 3, 4]
   \<and> x_IGC (snd (unpack_x_js example_ops (example_model 2 [4, 4, 4, 4] [0, 0]) [1, 2, 3, 4, 5, 6]))
       = Some [5, 6]
   \<and> fst (unpack_x_js example_ops (example_model 2 [4, 4, 4, 4] [0, 0]) [1, 2, 3, 4, 5]) \<noteq> None
   \<and> fst (unpack_x_js example_ops
            ((example_model 2 [4, 4, 4, 4] [0, 0])\<lparr>pm_model := ''JC69''\<rparr>) [1, 2, 3, 4, 5, 6]) \<noteq> None"
proof -
  have s: "names_supported example_ops (example_model 2 [4, 4, 4, 4] [0, 0])"
    by (simp add: names_supported_def example_ops_def example_model_def PSJSModel_supported_def)
  have n: "\<not> names_supported example_ops
            ((example_model 2 [4, 4, 4, 4] [0, 0])\<lparr>pm_model := ''JC69''\<rparr>)"
    by (simp add: names_supported_def example_ops_def example_model_def)
  show ?thesis
    using unpack_x_js_partition [of example_ops "example_model 2 [4, 4, 4, 4] [0, 0]"
        "[1, 2, 3, 4, 5, 6]"]
      unpack_x_js_partition [of example_ops "example_model 2 [4, 4, 4, 4] [0, 0]"
        "[1, 2, 3, 4, 5]"]
      unpack_x_js_partition [of example_ops
        "(example_model 2 [4, 4, 4, 4] [0, 0])\<lparr>pm_model := ''JC69''\<rparr>" "[1, 2, 3, 4, 5, 6]"]
      s n
    by simp
qed

text \<open>
  Claim C7, as amended. \<open>update_by_x_js\<close> is not atomic. When a submodel name is not
  supported it raises and leaves the instance as it was. When the names are supported and
  the new vector does not have 6 entries it raises \<open>AssertionError\<close> after the stored
  vector and both slices have been overwritten with the new vector and its slices, the
  collaborator keeping its old state. When the names are supported and the vector has 6
  entries it replaces the vector and both slices and updates the collaborator with the
  new point-mutation slice.
\<close>

theorem update_by_x_js_effect:
  "(\<not> names_supported ops m \<longrightarrow>
      fst (update_by_x_js ops m new_x_js) \<noteq> None \<and> snd (update_by_x_js ops m new_x_js) = m)
   \<and> (names_supported ops m \<and> length new_x_js \<noteq> 6 \<longrightarrow>
      update_by_x_js ops m new_x_js =
        (Some AssertionError,
         m\<lparr>x_pm := Some (take 4 new_x_js), x_IGC := Some (drop 4 new_x_js), x_js := new_x_js\<rparr>))
   \<and> (names_supported ops m \<and> length new_x_js = 6 \<and> PMModel m = Some pm \<longrightarrow>
      update_by_x_js ops m new_x_js =
        (None,
         m\<lparr>x_pm := Some (take 4 new_x_js), x_IGC := Some (drop 4 new_x_js), x_js := new_x_js,
           PMModel := Some (update_by_x_pm ops pm (take 4 new_x_js))\<rparr>))"
proof (cases "names_supported ops m")
  case True
  show ?thesis
    unfolding update_by_x_js_def unpack_x_js_supported [OF True] using True by simp
next
  case False
  from unpack_x_js_unsupported [OF False, of new_x_js] obtain e
    where "unpack_x_js ops m new_x_js = (Some e, m)" by blast
  with False show ?thesis
    by (simp add: update_by_x_js_def)
qed

theorem update_by_x_js_effect_witness:
  "update_by_x_js example_ops (example_model 2 [4, 4, 4, 4] [0, 0]) [1, 2, 3, 4, 5, 6] =
     (None, (example_model 2 [4, 4, 4, 4] [0, 0])
        \<lparr>x_pm := Some [1, 2, 3, 4], x_IGC := Some [5, 6], x_js := [1, 2, 3, 4, 5, 6],
         PMModel := Some [1, 2, 3, 4]\<rparr>)
   \<and> snd (update_by_x_js example_ops
        ((example_model 2 [4, 4, 4, 4] [0, 0])\<lparr>pm_model := ''JC69''\<rparr>) [1, 2, 3])
      = (example_model 2 [4, 4, 4, 4] [0, 0])\<lparr>pm_model := ''JC69''\<rparr>"
proof -
  have s: "names_supported example_ops (example_model 2 [4, 4, 4, 4] [0, 0])"
    by (simp add: names_supported_def example_ops_def example_model_def PSJSModel_supported_def)
  have n: "\<not> names_supported example_ops
            ((example_model 2 [4, 4, 4, 4] [0, 0])\<lparr>pm_model := ''JC69''\<rparr>)"
    by (simp add: names_supported_def example_ops_def example_model_def)
  have u: "update_by_x_pm example_ops example_x_pm [1, 2, 3, 4] = [1, 2, 3, 4]"
    by (simp add: example_ops_def)
  show ?thesis
    using update_by_x_js_effect [of example_ops "example_model 2 [4, 4, 4, 4] [0, 0]"
        "[1, 2, 3, 4, 5, 6]" example_x_pm]
      update_by_x_js_effect [of example_ops
        "(example_model 2 [4, 4, 4, 4] [0, 0])\<lparr>pm_model := ''JC69''\<rparr>" "[1, 2, 3]" example_x_pm]
      s n u
    by (simp add: example_fields)
qed

text \<open>
  The claim as stated fails on a constructed instance and a new vector of 5 entries: the
  update raises, and the stored vector and slices are those of the new vector while the
  collaborator is the old one.
\<close>

theorem update_by_x_js_counterexample:
  "PSJSModel_new example_ops (example_x_pm @ [0, 0]) ''HKY'' 3 ''One rate'' None 2
     = Inr (example_model 2 [4, 4, 4, 4] [0, 0])
   \<and> fst (update_by_x_js example_ops (example_model 2 [4, 4, 4, 4] [0, 0]) [1, 2, 3, 4, 5])
       = Some AssertionError
   \<and> x_js (snd (update_by_x_js example_ops (example_model 2 [4, 4, 4, 4] [0, 0]) [1, 2, 3, 4, 5]))
       = [1, 2, 3, 4, 5]
   \<and> x_pm (snd (update_by_x_js example_ops (example_model 2 [4, 4, 4, 4] [0, 0]) [1, 2, 3, 4, 5]))
       = Some [1, 2, 3, 4]
   \<and> x_IGC (snd (update_by_x_js example_ops (example_model 2 [4, 4, 4, 4] [0, 0]) [1, 2, 3, 4, 5]))
       = Some [5]
   \<and> PMModel (snd (update_by_x_js example_ops (example_model 2 [4, 4, 4, 4] [0, 0]) [1, 2, 3, 4, 5]))
       = Some example_x_pm
   \<and> x_js (example_model 2 [4, 4, 4, 4] [0, 0]) \<noteq> [1, 2, 3, 4, 5]
   \<and> x_pm (example_model 2 [4, 4, 4, 4] [0, 0]) \<noteq> Some [1, 2, 3, 4]
   \<and> x_IGC (example_model 2 [4, 4, 4, 4] [0, 0]) \<noteq> Some [5]"
proof -
  have "ln (3 / 10) < (0::real)"
    by simp
  then have l: "ln (3 / 10) \<noteq> (1::real)"
    by linarith
  have u: "update_by_x_js example_ops (example_model 2 [4, 4, 4, 4] [0, 0]) [1, 2, 3, 4, 5] =
     (Some AssertionError,
      (example_model 2 [4, 4, 4, 4] [0, 0])
        \<lparr>x_pm := Some [1, 2, 3, 4], x_IGC := Some [5], x_js := [1, 2, 3, 4, 5]\<rparr>)"
    by (simp add: update_by_x_js_def unpack_x_js_def example_model_def
        example_ops_def PSJSModel_supported_def Let_def)
  have "PSJSModel_new example_ops (example_x_pm @ [0, 0]) ''HKY'' 3 ''One rate'' None 2
     = Inr (example_model 2 [4, 4, 4, 4] [0, 0])"
    by (rule example_model_new)
  then show ?thesis
    unfolding u
  proof (rule conjI)
    show "fst (Some AssertionError,
             (example_model 2 [4, 4, 4, 4] [0, 0])
               \<lparr>x_pm := Some [1, 2, 3, 4], x_IGC := Some [5], x_js := [1, 2, 3, 4, 5]\<rparr>)
           = Some AssertionError
       \<and> x_js (snd (Some AssertionError,
             (example_model 2 [4, 4, 4, 4] [0, 0])
               \<lparr>x_pm := Some [1, 2, 3, 4], x_IGC := Some [5], x_js := [1, 2, 3, 4, 5]\<rparr>))
           = [1, 2, 3, 4, 5]
       \<and> x_pm (snd (Some AssertionError,
             (example_model 2 [4, 4, 4, 4] [0, 0])
               \<lparr>x_pm := Some [1, 2, 3, 4], x_IGC := Some [5], x_js := [1, 2, 3, 4, 5]\<rparr>))
           = Some [1, 2, 3, 4]
       \<and> x_IGC (snd (Some AssertionError,
             (example_model 2 [4, 4, 4, 4] [0, 0])
               \<lparr>x_pm := Some [1, 2, 3, 4], x_IGC := Some [5], x_js := [1, 2, 3, 4, 5]\<rparr>))
           = Some [5]
       \<and> PMModel (snd (Some AssertionError,
             (example_model 2 [4, 4, 4, 4] [0, 0])
               \<lparr>x_pm := Some [1, 2, 3, 4], x_IGC := Some [5], x_js := [1, 2, 3, 4, 5]\<rparr>))
           = Some example_x_pm
       \<and> x_js (example_model 2 [4, 4, 4, 4] [0, 0]) \<noteq> [1, 2, 3, 4, 5]
       \<and> x_pm (example_model 2 [4, 4, 4, 4] [0, 0]) \<noteq> Some [1, 2, 3, 4]
       \<and> x_IGC (example_model 2 [4, 4, 4, 4] [0, 0]) \<noteq> Some [5]"
      using l by (simp add: example_model_def example_x_pm_def)
  qed
qed


section \<open>The force map\<close>

lemma divide_force_loop_result:
  assumes "\<forall>k\<in>set keys. map_of f k \<noteq> None"
  shows "\<exists>pm' igc'. divide_force_loop f n keys (pm, igc) = Inr (pm', igc')
     \<and> map_of pm' = (\<lambda>k. if k \<in> set keys \<and> k < n then map_of f k else map_of pm k)
     \<and> map_of igc' =
         (\<lambda>k. if k + n \<in> set keys \<and> \<not> k + n < n then map_of f (k + n) else map_of igc k)"
  using assms
proof (induction keys arbitrary: pm igc)
  case Nil
  then show ?case by simp
next
  case (Cons key keys)
  from Cons.prems obtain v where v: "map_of f key = Some v"
    by auto
  from Cons.prems have rest: "\<forall>k\<in>set keys. map_of f k \<noteq> None"
    by simp
  show ?case
  proof (cases "key < n")
    case True
    from Cons.IH [OF rest, of "AList.update key v pm" igc]
    obtain pm' igc' where
      r: "divide_force_loop f n keys (AList.update key v pm, igc) = Inr (pm', igc')"
      and p: "map_of pm' =
        (\<lambda>k. if k \<in> set keys \<and> k < n then map_of f k else map_of (AList.update key v pm) k)"
      and i: "map_of igc' =
        (\<lambda>k. if k + n \<in> set keys \<and> \<not> k + n < n then map_of f (k + n) else map_of igc k)"
      by blast
    have p': "map_of pm' =
        (\<lambda>k. if k \<in> set (key # keys) \<and> k < n then map_of f k else map_of pm k)"
      unfolding p using True v by (auto simp add: update_conv fun_eq_iff)
    have i': "map_of igc' =
        (\<lambda>k. if k + n \<in> set (key # keys) \<and> \<not> k + n < n then map_of f (k + n)
              else map_of igc k)"
      unfolding i using True by (auto simp add: fun_eq_iff)
    from r p' i' show ?thesis
      using True v by simp
  next
    case False
    from Cons.IH [OF rest, of pm "AList.update (key - n) v igc"]
    obtain pm' igc' where
      r: "divide_force_loop f n keys (pm, AList.update (key - n) v igc) = Inr (pm', igc')"
      and p: "map_of pm' =
        (\<lambda>k. if k \<in> set keys \<and> k < n then map_of f k else map_of pm k)"
      and i: "map_of igc' =
        (\<lambda>k. if k + n \<in> set keys \<and> \<not> k + n < n then map_of f (k + n)
              else map_of (AList.update (key - n) v igc) k)"
      by blast
    have p': "map_of pm' =
        (\<lambda>k. if k \<in> set (key # keys) \<and> k < n then map_of f k else map_of pm k)"
      unfolding p using False by (auto simp add: fun_eq_iff)
    have i': "map_of igc' =
        (\<lambda>k. if k + n \<in> set (key # keys) \<and> \<not> k + n < n then map_of f (k + n)
              else map_of igc k)"
      unfolding i using False v by (auto simp add: update_conv fun_eq_iff)
    from r p' i' show ?thesis
      using False v by simp
  qed
qed

lemma map_of_absent: "k \<notin> fst ` set f \<Longrightarrow> map_of f k = None"
  by (simp add: map_of_eq_None_iff)

lemma map_of_keys_defined: "\<forall>k\<in>set (map fst f). map_of f k \<noteq> None"
  by (auto simp add: map_of_eq_None_iff)

lemma lookup_normalized:
  "lookup (if al = [] then None else Some al) = map_of al"
  by (auto simp add: lookup_def fun_eq_iff)

text \<open>
  Claim C9. \<open>divide_force\<close> returns the pair of absences when the stored force map
  is absent. Otherwise (the submodel names being supported) a key below 4 keeps its value
  in the point-mutation force map, a key from 4 on is found in the IGC force map under the
  key less 4, neither map holds anything else, and a map that would be empty is
  \<open>None\<close>, never an empty dictionary.
\<close>

theorem divide_force_partition:
  "(force m = None \<longrightarrow> divide_force ops m = Inr (None, None))
   \<and> (force m = Some f \<and> names_supported ops m \<longrightarrow>
        (\<exists>pm_force igc_force. divide_force ops m = Inr (pm_force, igc_force)
           \<and> (\<forall>k. lookup pm_force k = (if k < 4 then map_of f k else None))
           \<and> (\<forall>k. lookup igc_force k = (if 0 \<le> k then map_of f (k + 4) else None))
           \<and> pm_force \<noteq> Some [] \<and> igc_force \<noteq> Some []
           \<and> (pm_force = None \<longleftrightarrow> (\<forall>k. k < 4 \<longrightarrow> map_of f k = None))
           \<and> (igc_force = None \<longleftrightarrow> (\<forall>k. 4 \<le> k \<longrightarrow> map_of f k = None))))"
proof (intro conjI impI)
  assume "force m = None"
  then show "divide_force ops m = Inr (None, None)"
    by (simp add: divide_force_def)
next
  assume a: "force m = Some f \<and> names_supported ops m"
  then have ns: "pm_model m \<in> set (PMModel_supported ops)" "pm_model m = ''HKY''"
    "IGC_pm m \<in> set PSJSModel_supported" "IGC_pm m = ''One rate''"
    by (auto simp add: names_supported_def PSJSModel_supported_def)
  from divide_force_loop_result [OF map_of_keys_defined, of f 4 "[]" "[]"]
  obtain pm' igc' where
    r: "divide_force_loop f 4 (map fst f) ([], []) = Inr (pm', igc')"
    and p: "map_of pm' =
      (\<lambda>k. if k \<in> set (map fst f) \<and> k < 4 then map_of f k else map_of [] k)"
    and i: "map_of igc' =
      (\<lambda>k. if k + 4 \<in> set (map fst f) \<and> \<not> k + 4 < 4 then map_of f (k + 4)
            else map_of [] k)"
    by blast
  have p': "map_of pm' = (\<lambda>k. if k < 4 then map_of f k else None)"
    unfolding p by (auto simp add: fun_eq_iff map_of_absent)
  have i': "map_of igc' = (\<lambda>k. if 0 \<le> k then map_of f (k + 4) else None)"
    unfolding i by (auto simp add: fun_eq_iff map_of_absent)
  have d: "divide_force ops m =
      Inr (if pm' = [] then None else Some pm', if igc' = [] then None else Some igc')"
    using a ns r by (simp add: divide_force_def)
  have pe: "pm' = [] \<longleftrightarrow> (\<forall>k. k < 4 \<longrightarrow> map_of f k = None)"
    using p' map_of_eq_empty_iff [of pm'] by (auto simp add: fun_eq_iff split: if_splits)
  have ie: "igc' = [] \<longleftrightarrow> (\<forall>k. 4 \<le> k \<longrightarrow> map_of f k = None)"
  proof
    assume "igc' = []"
    then have e: "\<And>k. 0 \<le> k \<Longrightarrow> map_of f (k + 4) = None"
      using i' by (auto simp add: fun_eq_iff split: if_splits)
    show "\<forall>k. 4 \<le> k \<longrightarrow> map_of f k = None"
    proof (intro allI impI)
      fix k :: int
      assume "4 \<le> k"
      then have "0 \<le> k - 4" by simp
      from e [OF this] show "map_of f k = None" by simp
    qed
  next
    assume "\<forall>k. 4 \<le> k \<longrightarrow> map_of f k = None"
    then have "map_of igc' = Map.empty"
      unfolding i' by (auto simp add: fun_eq_iff)
    then show "igc' = []"
      by (simp add: map_of_eq_empty_iff)
  qed
  show "\<exists>pm_force igc_force. divide_force ops m = Inr (pm_force, igc_force)
           \<and> (\<forall>k. lookup pm_force k = (if k < 4 then map_of f k else None))
           \<and> (\<forall>k. lookup igc_force k = (if 0 \<le> k then map_of f (k + 4) else None))
           \<and> pm_force \<noteq> Some [] \<and> igc_force \<noteq> Some []
           \<and> (pm_force = None \<longleftrightarrow> (\<forall>k. k < 4 \<longrightarrow> map_of f k = None))
           \<and> (igc_force = None \<longleftrightarrow> (\<forall>k. 4 \<le> k \<longrightarrow> map_of f k = None))"
    unfolding d
    apply (intro exI conjI)
          apply (rule refl)
         apply (simp add: lookup_normalized p')
        apply (simp add: lookup_normalized i')
       apply simp
      apply simp
     apply (simp add: pe)
    apply (simp add: ie)
    done
qed

theorem divide_force_partition_witness:
  "divide_force example_ops
     ((example_model 2 [4, 4, 4, 4] [0, 0])\<lparr>force := Some [(0, 1 / 2), (5, 2), (3, 7)]\<rparr>)
     = Inr (Some [(0, 1 / 2), (3, 7)], Some [(1, 2)])
   \<and> divide_force example_ops
     ((example_model 2 [4, 4, 4, 4] [0, 0])\<lparr>force := Some [(5, 2)]\<rparr>)
     = Inr (None, Some [(1, 2)])
   \<and> divide_force example_ops (example_model 2 [4, 4, 4, 4] [0, 0]) = Inr (None, None)"
proof -
  have s: "names_supported example_ops
      ((example_model 2 [4, 4, 4, 4] [0, 0])\<lparr>force := Some f\<rparr>)" for f
    by (simp add: names_supported_def example_ops_def example_model_def PSJSModel_supported_def)
  have e1: "divide_force example_ops
     ((example_model 2 [4, 4, 4, 4] [0, 0])\<lparr>force := Some [(0, 1 / 2), (5, 2), (3, 7)]\<rparr>)
     = Inr (Some [(0, 1 / 2), (3, 7)], Some [(1, 2)])"
    by (simp add: divide_force_def example_ops_def example_model_def PSJSModel_supported_def)
  have e2: "divide_force example_ops
     ((example_model 2 [4, 4, 4, 4] [0, 0])\<lparr>force := Some [(5, 2)]\<rparr>)
     = Inr (None, Some [(1, 2)])"
    by (simp add: divide_force_def example_ops_def example_model_def PSJSModel_supported_def)
  have f0: "force (example_model 2 [4, 4, 4, 4] [0, 0]) = None"
    by (simp add: example_model_def)
  show ?thesis
    using divide_force_partition [of "example_model 2 [4, 4, 4, 4] [0, 0]" example_ops "[]"] f0
      e1 e2
    by simp
qed


section \<open>The constructor and the two-paralog assertion\<close>

lemma PSJSModel_new_shape:
  assumes "PSJSModel_new ops x pmm no igc f nj = Inr m"
  shows "n_js m = nj
       \<and> state_space_shape m = Some (map (\<lambda>i. 4) (range_int (nj * 2)))
       \<and> length (remdups (map (\<lambda>i. 4::int) (range_int (nj * 2)))) = 1"
  using assms
  unfolding PSJSModel_new_def init_models_def update_by_x_js_def unpack_x_js_def
  by (auto simp add: Let_def split: prod.splits option.splits sum.splits if_splits)

lemma length_range_int: "length (range_int k) = nat k"
  by (simp add: range_int_def)

lemma PSJSModel_new_positive:
  assumes "PSJSModel_new ops x pmm no igc f nj = Inr m"
  shows "1 \<le> nj"
proof -
  from PSJSModel_new_shape [OF assms]
  have "length (remdups (map (\<lambda>i. 4::int) (range_int (nj * 2)))) = 1"
    by simp
  then have "map (\<lambda>i. 4::int) (range_int (nj * 2)) \<noteq> []"
    by auto
  then have "length (range_int (nj * 2)) \<noteq> 0"
    by simp
  then show ?thesis
    by (simp add: length_range_int)
qed

lemma product_repeat_nonempty: "xs \<noteq> [] \<Longrightarrow> product_repeat xs r \<noteq> []"
  by (induction r) (auto simp add: neq_Nil_conv)

lemma not_four_incompatible:
  assumes "state_space_shape m = Some shape" "length shape \<noteq> 4"
  shows "is_transition_compatible m transition = Inl AssertionError"
  using assms by (simp add: is_transition_compatible_def)

lemma BF_outer_first_error:
  assumes "\<And>t. is_transition_compatible m t = Inl e" "states \<noteq> []" "froms \<noteq> []"
  shows "BF_outer fp ops m n proportion froms states = Inl e"
proof -
  from assms(2) obtain st rest where s: "states = st # rest"
    by (cases states) auto
  from assms(3) obtain sf rest' where f: "froms = sf # rest'"
    by (cases froms) auto
  show ?thesis
    unfolding s f by (simp add: assms(1))
qed

text \<open>
  Claim C10. An instance that the constructor builds with \<open>n_js\<close> other than 2 has a
  state-space shape whose length is not 4, so every call of
  \<open>is_transition_compatible\<close>, of \<open>cal_IGC_transition_rate\<close> and of
  \<open>get_process_definition\<close> on it raises \<open>AssertionError\<close>.
\<close>

theorem n_js_not_two_fails:
  assumes new: "PSJSModel_new ops x pmm no igc f nj = Inr m"
    and nj: "nj \<noteq> 2"
  shows "is_transition_compatible m transition = Inl AssertionError
       \<and> cal_IGC_transition_rate fp ops m transition n proportion = Inl AssertionError
       \<and> get_process_definition fp ops m n proportion = Inl AssertionError"
proof -
  note sh = PSJSModel_new_shape [OF new]
  note pos = PSJSModel_new_positive [OF new]
  from sh have njs: "n_js m = nj"
    and shape: "state_space_shape m = Some (map (\<lambda>i. 4) (range_int (nj * 2)))"
    by simp_all
  have len: "length (map (\<lambda>i. 4::int) (range_int (nj * 2))) \<noteq> 4"
    using nj pos by (simp add: length_range_int)
  have a: "is_transition_compatible m t = Inl AssertionError" for t
    using shape len by (rule not_four_incompatible)
  have b: "cal_IGC_transition_rate fp ops m transition n proportion = Inl AssertionError"
    by (simp add: cal_IGC_transition_rate_def a)
  have "range_int (nj * 2) \<noteq> []"
    using pos length_range_int [of "nj * 2"] by auto
  then obtain k ks where r: "range_int (nj * 2) = k # ks"
    by (cases "range_int (nj * 2)") auto
  have r4: "range_int 4 \<noteq> []"
    by (simp add: range_int_def upt4)
  have ne: "product_repeat (range_int 4) (nat (nj * 2)) \<noteq> []"
    using r4 by (rule product_repeat_nonempty)
  have "get_IGC_transition_rates_BF fp ops m n proportion = Inl AssertionError"
    unfolding get_IGC_transition_rates_BF_def
    using pos BF_outer_first_error [OF a ne ne, where fp = fp and ops = ops and n = n
        and proportion = proportion]
    by (simp add: shape r njs Let_def)
  then have c: "get_process_definition fp ops m n proportion = Inl AssertionError"
    by (simp add: get_process_definition_def)
  from a b c show ?thesis by simp
qed

lemma example_model_new1:
  "PSJSModel_new example_ops (example_x_pm @ [a, b]) ''HKY'' 3 ''One rate'' None 1
     = Inr (example_model 1 [4, 4] [a, b])"
  by (simp add: PSJSModel_new_def init_models_def unpack_x_js_def update_by_x_js_def
      divide_force_def example_ops_def example_x_pm_def example_model_def
      PSJSModel_supported_def range_int_def upt_rec Let_def)

theorem n_js_not_two_fails_witness:
  "PSJSModel_new example_ops (example_x_pm @ [0, 0]) ''HKY'' 3 ''One rate'' None 1
     = Inr (example_model 1 [4, 4] [0, 0])
   \<and> is_transition_compatible (example_model 1 [4, 4] [0, 0]) [[0, 1], [0, 2]]
       = Inl AssertionError
   \<and> cal_IGC_transition_rate exact_fp example_ops (example_model 1 [4, 4] [0, 0]) [[0, 1], [0, 2]] 1 False
       = Inl AssertionError
   \<and> get_process_definition exact_fp example_ops (example_model 1 [4, 4] [0, 0]) 1 False
       = Inl AssertionError"
proof -
  have n: "(1::int) \<noteq> 2"
    by simp
  show ?thesis
    using n_js_not_two_fails [OF example_model_new1 [of 0 0] n, where fp = exact_fp
        and transition = "[[0, 1], [0, 2]]" and n = 1 and proportion = False]
      example_model_new1 [of 0 0]
    by simp
qed

section \<open>The process-definition assembler\<close>

lemma product_repeat_length:
  "ys \<in> set (product_repeat xs r) \<Longrightarrow> length ys = r"
  by (induction r arbitrary: ys) auto

lemma product_repeat_set:
  "ys \<in> set (product_repeat xs r) \<Longrightarrow> y \<in> set ys \<Longrightarrow> y \<in> set xs"
proof (induction r arbitrary: ys)
  case 0
  then show ?case by simp
next
  case (Suc r)
  from Suc.prems(1) obtain x zs where "x \<in> set xs" "zs \<in> set (product_repeat xs r)" "ys = x # zs"
    by auto
  with Suc.prems(2) Suc.IH [of zs] show ?case
    by auto
qed

lemma compatible_lists4:
  assumes "state_space_shape m = Some shape" "length shape = 4"
  shows "is_transition_compatible m [[a0, a1, a2, a3], [b0, b1, b2, b3]]
     = Inr (if [a0, a1, a2, a3] = [b0, b1, b2, b3] then False
            else if length (pos_list_of [a0, a1, a2, a3] [b0, b1, b2, b3]) > 2 then False
            else if length (pos_list_of [a0, a1, a2, a3] [b0, b1, b2, b3]) = 2
              then (pos_list_of [a0, a1, a2, a3] [b0, b1, b2, b3] = [0, 1] \<and> b0 = a2 \<and> b1 = a3
                 \<or> pos_list_of [a0, a1, a2, a3] [b0, b1, b2, b3] = [2, 3] \<and> b2 = a0 \<and> b3 = a1)
            else True)"
  unfolding is_transition_compatible_def
  by (cases "a0 = b0"; cases "a1 = b1"; cases "a2 = b2"; cases "a3 = b3";
      simp add: assms pos_list_of4 Let_def)

lemma compatible_total:
  assumes "state_space_shape m = Some shape" "length shape = 4"
    "length state_from = 4" "length state_to = 4"
  shows "\<exists>c. is_transition_compatible m [state_from, state_to] = Inr c"
proof -
  obtain a0 a1 a2 a3 where sf: "state_from = [a0, a1, a2, a3]"
    using length4E [OF assms(3)] by blast
  obtain b0 b1 b2 b3 where st: "state_to = [b0, b1, b2, b3]"
    using length4E [OF assms(4)] by blast
  show ?thesis
    unfolding sf st compatible_lists4 [OF assms(1,2)] by (rule exI) (rule refl)
qed

lemma compatible_from_Nil: "compatible_from m sf [] = []"
  by (simp add: compatible_from_def)

lemma compatible_from_Cons:
  "compatible_from m sf (st # sts) =
     (if is_transition_compatible m [sf, st] = Inr True then [(sf, st)] else [])
       @ compatible_from m sf sts"
  by (simp add: compatible_from_def)

lemma compatible_pairs_from:
  "compatible_pairs m states = concat (map (\<lambda>sf. compatible_from m sf states) states)"
  by (simp add: compatible_pairs_def compatible_from_def)

lemma BF_inner_spec:
  assumes "\<forall>st\<in>set sts. pair_ok fp ops m n p sf st"
  shows "\<exists>ys. BF_inner fp ops m n p sf sts = Inr ys
          \<and> map observed ys = map (expected fp ops m n p) (compatible_from m sf sts)"
  using assms
proof (induction sts)
  case Nil
  then show ?case
    by (simp add: compatible_from_Nil)
next
  case (Cons st sts)
  then have ok: "pair_ok fp ops m n p sf st" and rest: "\<forall>st\<in>set sts. pair_ok fp ops m n p sf st"
    by simp_all
  from Cons.IH [OF rest] obtain ys where ys: "BF_inner fp ops m n p sf sts = Inr ys"
    and y: "map observed ys = map (expected fp ops m n p) (compatible_from m sf sts)"
    by blast
  from ok obtain c where c: "is_transition_compatible m [sf, st] = Inr c"
    unfolding pair_ok_def by blast
  show ?case
  proof (cases c)
    case True
    with c have t: "is_transition_compatible m [sf, st] = Inr True"
      by simp
    with ok obtain v where v: "cal_IGC_transition_rate fp ops m [sf, st] n p = Inr v"
      unfolding pair_ok_def by blast
    have r: "BF_inner fp ops m n p sf (st # sts) = Inr ((sf, st, v) # ys)"
      by (simp add: t v ys)
    have "map observed ((sf, st, v) # ys)
        = map (expected fp ops m n p) (compatible_from m sf (st # sts))"
      unfolding compatible_from_Cons
      by (simp add: t y) (simp add: observed_def expected_def v)
    with r show ?thesis
      by blast
  next
    case False
    with c have t: "is_transition_compatible m [sf, st] = Inr False"
      by simp
    have r: "BF_inner fp ops m n p sf (st # sts) = Inr ys"
      by (simp add: t ys)
    have "map observed ys = map (expected fp ops m n p) (compatible_from m sf (st # sts))"
      unfolding compatible_from_Cons by (simp add: t y)
    with r show ?thesis
      by blast
  qed
qed

lemma BF_outer_spec:
  assumes "\<forall>sf\<in>set sfs. \<forall>st\<in>set sts. pair_ok fp ops m n p sf st"
  shows "\<exists>ys. BF_outer fp ops m n p sfs sts = Inr ys
          \<and> map observed ys =
              map (expected fp ops m n p) (concat (map (\<lambda>sf. compatible_from m sf sts) sfs))"
  using assms
proof (induction sfs)
  case Nil
  then show ?case by simp
next
  case (Cons sf sfs)
  then have ok: "\<forall>st\<in>set sts. pair_ok fp ops m n p sf st"
    and rest: "\<forall>sf\<in>set sfs. \<forall>st\<in>set sts. pair_ok fp ops m n p sf st"
    by simp_all
  from Cons.IH [OF rest] obtain ys where ys: "BF_outer fp ops m n p sfs sts = Inr ys"
    and y: "map observed ys =
              map (expected fp ops m n p) (concat (map (\<lambda>sf. compatible_from m sf sts) sfs))"
    by blast
  from BF_inner_spec [OF ok] obtain xs where xs: "BF_inner fp ops m n p sf sts = Inr xs"
    and x: "map observed xs = map (expected fp ops m n p) (compatible_from m sf sts)"
    by blast
  have r: "BF_outer fp ops m n p (sf # sfs) sts = Inr (xs @ ys)"
    by (simp add: xs ys)
  have "map observed (xs @ ys) =
      map (expected fp ops m n p) (concat (map (\<lambda>sf. compatible_from m sf sts) (sf # sfs)))"
    by (simp add: x y)
  with r show ?case
    by blast
qed

lemma observed_rows:
  assumes "map observed ys = map (expected fp ops m n p) pairs"
  shows "map fst ys = map fst pairs"
    and "map (\<lambda>t. fst (snd t)) ys = map snd pairs"
    and "map Inr (map (\<lambda>t. snd (snd t)) ys) =
           map (\<lambda>(sf, st). cal_IGC_transition_rate fp ops m [sf, st] n p) pairs"
    and "length (map (\<lambda>t. snd (snd t)) ys) = length pairs"
proof -
  have "map (\<lambda>t. fst (fst (observed t))) ys = map (\<lambda>pr. fst (fst (expected fp ops m n p pr))) pairs"
    using arg_cong [OF assms, of "map (\<lambda>x. fst (fst x))"] by (simp add: comp_def)
  then show "map fst ys = map fst pairs"
    by (simp add: observed_def expected_def)
  have "map (\<lambda>t. snd (fst (observed t))) ys = map (\<lambda>pr. snd (fst (expected fp ops m n p pr))) pairs"
    using arg_cong [OF assms, of "map (\<lambda>x. snd (fst x))"] by (simp add: comp_def)
  then show "map (\<lambda>t. fst (snd t)) ys = map snd pairs"
    by (simp add: observed_def expected_def)
  have "map (\<lambda>t. snd (observed t)) ys = map (\<lambda>pr. snd (expected fp ops m n p pr)) pairs"
    using arg_cong [OF assms, of "map snd"] by (simp add: comp_def)
  then show "map Inr (map (\<lambda>t. snd (snd t)) ys) =
           map (\<lambda>(sf, st). cal_IGC_transition_rate fp ops m [sf, st] n p) pairs"
    by (simp add: observed_def expected_def comp_def case_prod_unfold)
  from arg_cong [OF assms, of length] show "length (map (\<lambda>t. snd (snd t)) ys) = length pairs"
    by simp
qed


lemma map_int_upt: "map int [0..<n] = [0..int n - 1]"
proof (induction n)
  case 0
  then show ?case by simp
next
  case (Suc n)
  have "[0..int (Suc n) - 1] = [0..int n - 1] @ [int n]"
    using upto_rec2 [of 0 "int n"] by simp
  with Suc show ?case
    by simp
qed

lemma range_int_upto: "range_int k = [0..k - 1]"
proof (cases "0 < k")
  case True
  then have "int (nat k) = k"
    by simp
  with map_int_upt [of "nat k"] show ?thesis
    by (simp add: range_int_def)
next
  case False
  then show ?thesis
    by (simp add: range_int_def)
qed

lemma product_repeat_4:
  "product_repeat xs 4 =
     concat (map (\<lambda>a. concat (map (\<lambda>b. concat (map (\<lambda>c. map (\<lambda>d. [a, b, c, d]) xs) xs)) xs)) xs)"
  by (simp add: eval_nat_numeral map_concat comp_def)

lemma product_repeat_set_eq:
  "set (product_repeat xs r) = {ys. length ys = r \<and> set ys \<subseteq> set xs}"
proof (induction r)
  case 0
  then show ?case by auto
next
  case (Suc r)
  show ?case
  proof (intro set_eqI iffI)
    fix ys
    assume "ys \<in> set (product_repeat xs (Suc r))"
    then show "ys \<in> {ys. length ys = Suc r \<and> set ys \<subseteq> set xs}"
      using Suc.IH by auto
  next
    fix ys
    assume "ys \<in> {ys. length ys = Suc r \<and> set ys \<subseteq> set xs}"
    then obtain y zs where "ys = y # zs" "length zs = r" "y \<in> set xs" "set zs \<subseteq> set xs"
      by (cases ys) auto
    then show "ys \<in> set (product_repeat xs (Suc r))"
      using Suc.IH by auto
  qed
qed

lemma product_repeat_count: "length (product_repeat xs r) = length xs ^ r"
  by (induction r) (simp_all add: length_concat comp_def sum_list_triv)

lemma product_repeat_distinct:
  assumes "distinct xs"
  shows "distinct (product_repeat xs r)"
proof (induction r)
  case 0
  then show ?case by simp
next
  case (Suc r)
  have "distinct (concat (map (\<lambda>x. map ((#) x) ys) zs))" if "distinct ys" "distinct zs" for ys :: "'a list list" and zs
    using that
  proof (induction zs)
    case Nil
    then show ?case by simp
  next
    case (Cons z zs)
    then show ?case
      by (auto simp add: distinct_map inj_on_def)
  qed
  with Suc assms show ?case
    by simp
qed


lemma product_repeat_all_states: "product_repeat (range_int k) 4 = all_states k"
  unfolding product_repeat_4 range_int_upto all_states_def ..

lemma all_states_set:
  "set (all_states k) = {s. length s = 4 \<and> (\<forall>x\<in>set s. 0 \<le> x \<and> x < k)}"
  unfolding product_repeat_all_states [symmetric] product_repeat_set_eq range_int_upto
  by auto

lemma all_states_distinct: "distinct (all_states k)"
  unfolding product_repeat_all_states [symmetric]
  by (rule product_repeat_distinct) (simp add: range_int_upto)

lemma all_states_count: "length (all_states k) = nat k ^ 4"
  unfolding product_repeat_all_states [symmetric]
  by (simp add: product_repeat_count range_int_def)


lemma compatible_pairs_set:
  "set (compatible_pairs m states) =
     {(sf, st). sf \<in> set states \<and> st \<in> set states
        \<and> is_transition_compatible m [sf, st] = Inr True}"
  by (auto simp add: compatible_pairs_def)

lemma states_pair_ok:
  assumes shape: "state_space_shape m = Some (k # shape')"
    and len: "length shape' = 3"
    and pm: "IGC_pm m = ''One rate''"
    and xs: "x_IGC m = Some [x0, x1]"
    and coll: "PMModel m = Some pm"
    and q: "\<forall>a b. 0 \<le> a \<and> a < k \<and> 0 \<le> b \<and> b < k \<longrightarrow> Q_mut ops pm a b \<noteq> None"
    and sf: "sf \<in> set (all_states k)"
    and st: "st \<in> set (all_states k)"
  shows "pair_ok fp ops m n p sf st"
proof -
  from sf st have l: "length sf = 4" "length st = 4"
    and r: "\<forall>x\<in>set sf. 0 \<le> x \<and> x < k" "\<forall>x\<in>set st. 0 \<le> x \<and> x < k"
    by (simp_all add: all_states_set)
  have l4: "length (k # shape') = 4"
    using len by simp
  have total: "\<exists>c. is_transition_compatible m [sf, st] = Inr c"
    using shape l4 l by (rule compatible_total)
  have look: "\<forall>i<4. Q_mut ops pm (sf ! i) (st ! i) \<noteq> None"
  proof (intro allI impI)
    fix i :: nat
    assume "i < 4"
    then have "sf ! i \<in> set sf" "st ! i \<in> set st"
      using l by simp_all
    with r have "0 \<le> sf ! i \<and> sf ! i < k" "0 \<le> st ! i \<and> st ! i < k"
      by blast+
    with q show "Q_mut ops pm (sf ! i) (st ! i) \<noteq> None"
      by blast
  qed
  have "\<exists>v. cal_IGC_transition_rate fp ops m [sf, st] n p = Inr v"
    if "is_transition_compatible m [sf, st] = Inr True"
    using that pm xs coll look by (rule cal_returns)
  with total show ?thesis
    unfolding pair_ok_def by blast
qed

text \<open>
  Claim C4. On an instance for two paralogs (\<open>n_js = 2\<close>, a shape of four
  coordinates whose first entry is the alphabet size \<open>k\<close>), with the IGC
  parameterization \<open>One rate\<close>, two IGC parameters and a collaborator whose rate table
  covers the alphabet, \<open>get_process_definition\<close> returns, for every separation and
  either value of the flag, a dictionary of three sequences of equal length: the origins
  and the destinations of the pairs of the cartesian product of the state space with
  itself that \<open>is_transition_compatible\<close> accepts, in the order of the enumeration,
  and for each pair the value of \<open>cal_IGC_transition_rate\<close>; the third key is
  \<open>weights\<close> when the flag is set and \<open>transition_rates\<close> otherwise. The state
  space is the list of all sequences of four symbols below \<open>k\<close>, each once, in the
  order of four nested loops, so it has \<open>k\<^sup>4\<close> states; the pairs are all pairs of
  states that the predicate accepts.
\<close>

theorem get_process_definition_enumerates:
  assumes shape: "state_space_shape m = Some (k # shape')"
    and len: "length shape' = 3"
    and njs: "n_js m = 2"
    and pm: "IGC_pm m = ''One rate''"
    and xs: "x_IGC m = Some [x0, x1]"
    and coll: "PMModel m = Some pm"
    and q: "\<forall>a b. 0 \<le> a \<and> a < k \<and> 0 \<le> b \<and> b < k \<longrightarrow> Q_mut ops pm a b \<noteq> None"
  shows "\<exists>rs. get_process_definition fp ops m n proportion =
            Inr [''row_states'' \<mapsto> States (map fst (compatible_pairs m (all_states k))),
                 ''column_states'' \<mapsto> States (map snd (compatible_pairs m (all_states k))),
                 (if proportion then ''weights'' else ''transition_rates'') \<mapsto> Rates rs]
          \<and> length rs = length (compatible_pairs m (all_states k))
          \<and> map Inr rs =
              map (\<lambda>(state_from, state_to).
                     cal_IGC_transition_rate fp ops m [state_from, state_to] n proportion)
                (compatible_pairs m (all_states k))
          \<and> set (compatible_pairs m (all_states k)) =
              {(state_from, state_to).
                 state_from \<in> set (all_states k) \<and> state_to \<in> set (all_states k)
                 \<and> is_transition_compatible m [state_from, state_to] = Inr True}
          \<and> set (all_states k) = {s. length s = 4 \<and> (\<forall>x\<in>set s. 0 \<le> x \<and> x < k)}
          \<and> distinct (all_states k)
          \<and> length (all_states k) = nat k ^ 4"
proof -
  have ok: "\<forall>sf\<in>set (all_states k). \<forall>st\<in>set (all_states k). pair_ok fp ops m n proportion sf st"
    using states_pair_ok [OF shape len pm xs coll q] by blast
  from BF_outer_spec [OF ok] obtain ys
    where ys: "BF_outer fp ops m n proportion (all_states k) (all_states k) = Inr ys"
      and y: "map observed ys = map (expected fp ops m n proportion)
                (compatible_pairs m (all_states k))"
    unfolding compatible_pairs_from by blast
  have bf: "get_IGC_transition_rates_BF fp ops m n proportion = Inr ys"
    unfolding get_IGC_transition_rates_BF_def
    by (simp add: shape njs ys product_repeat_all_states)
  note rows = observed_rows [OF y]
  have pd: "get_process_definition fp ops m n proportion =
            Inr [''row_states'' \<mapsto> States (map fst (compatible_pairs m (all_states k))),
                 ''column_states'' \<mapsto> States (map snd (compatible_pairs m (all_states k))),
                 (if proportion then ''weights'' else ''transition_rates'') \<mapsto>
                   Rates (map (\<lambda>t. snd (snd t)) ys)]"
    unfolding get_process_definition_def bf
    by (cases proportion) (simp_all add: rows(1,2) Let_def)
  from pd rows(3,4) compatible_pairs_set [of m "all_states k"] all_states_set [of k]
    all_states_distinct [of k] all_states_count [of k]
  show ?thesis
    by blast
qed

lemma example_Q_total:
  "\<forall>a b. 0 \<le> a \<and> a < 4 \<and> 0 \<le> b \<and> b < 4 \<longrightarrow> Q_mut example_ops pm a b \<noteq> None"
  by (simp add: example_ops_def)

lemma upto_0_1: "[0..1] = [0, 1::int]"
  by (simp add: upto.simps)

lemma example_count_2:
  "length (compatible_pairs (example_model 2 [2, 2, 2, 2] [0, 0]) (all_states 2)) = 72"
proof -
  have s: "state_space_shape (example_model 2 [2, 2, 2, 2] [0, 0]) = Some [2, 2, 2, 2]"
    by (simp add: example_model_def)
  have l: "length [2, 2, 2, 2 :: int] = 4"
    by simp
  show ?thesis
    by (simp add: all_states_def compatible_pairs_def compatible_lists4 [OF s l] pos_list_of4
        upto_0_1)
qed

lemma example_Q_total_2:
  "\<forall>a b. 0 \<le> a \<and> a < 2 \<and> 0 \<le> b \<and> b < 2 \<longrightarrow> Q_mut example_ops pm a b \<noteq> None"
  by (simp add: example_ops_def)

theorem get_process_definition_enumerates_witness:
  "(\<exists>rs. get_process_definition exact_fp example_ops
          (example_model 2 [4, 4, 4, 4] [ln (3 / 10), ln (1 / 30)]) 10 False =
            Inr [''row_states'' \<mapsto>
                   States (map fst (compatible_pairs
                     (example_model 2 [4, 4, 4, 4] [ln (3 / 10), ln (1 / 30)]) (all_states 4))),
                 ''column_states'' \<mapsto>
                   States (map snd (compatible_pairs
                     (example_model 2 [4, 4, 4, 4] [ln (3 / 10), ln (1 / 30)]) (all_states 4))),
                 ''transition_rates'' \<mapsto> Rates rs]
        \<and> length rs = length (compatible_pairs
                     (example_model 2 [4, 4, 4, 4] [ln (3 / 10), ln (1 / 30)]) (all_states 4)))
   \<and> length (all_states 4) = 256
   \<and> (\<exists>rs. get_process_definition exact_fp example_ops
          (example_model 2 [2, 2, 2, 2] [0, 0]) 1 True =
            Inr [''row_states'' \<mapsto>
                   States (map fst (compatible_pairs
                     (example_model 2 [2, 2, 2, 2] [0, 0]) (all_states 2))),
                 ''column_states'' \<mapsto>
                   States (map snd (compatible_pairs
                     (example_model 2 [2, 2, 2, 2] [0, 0]) (all_states 2))),
                 ''weights'' \<mapsto> Rates rs]
        \<and> length rs = 72)
   \<and> length (all_states 2) = 16"
proof -
  have l: "length [4, 4, 4 :: int] = 3" "length [2, 2, 2 :: int] = 3"
    by simp_all
  note a = get_process_definition_enumerates [OF example_fields(4) l(1) example_fields(5,1,2,3)
        example_Q_total, where fp = exact_fp and n = 10 and proportion = False
        and ?x0.0 = "ln (3 / 10)" and ?x1.0 = "ln (1 / 30)"]
  note b = get_process_definition_enumerates [OF example_fields(4) l(2) example_fields(5,1,2,3)
        example_Q_total_2, where fp = exact_fp and n = 1 and proportion = True
        and ?x0.0 = 0 and ?x1.0 = 0]
  from a have a': "(\<exists>rs. get_process_definition exact_fp example_ops
          (example_model 2 [4, 4, 4, 4] [ln (3 / 10), ln (1 / 30)]) 10 False =
            Inr [''row_states'' \<mapsto>
                   States (map fst (compatible_pairs
                     (example_model 2 [4, 4, 4, 4] [ln (3 / 10), ln (1 / 30)]) (all_states 4))),
                 ''column_states'' \<mapsto>
                   States (map snd (compatible_pairs
                     (example_model 2 [4, 4, 4, 4] [ln (3 / 10), ln (1 / 30)]) (all_states 4))),
                 ''transition_rates'' \<mapsto> Rates rs]
        \<and> length rs = length (compatible_pairs
                     (example_model 2 [4, 4, 4, 4] [ln (3 / 10), ln (1 / 30)]) (all_states 4)))"
    and a'': "length (all_states 4) = 256"
    by auto
  from b have b': "(\<exists>rs. get_process_definition exact_fp example_ops
          (example_model 2 [2, 2, 2, 2] [0, 0]) 1 True =
            Inr [''row_states'' \<mapsto>
                   States (map fst (compatible_pairs
                     (example_model 2 [2, 2, 2, 2] [0, 0]) (all_states 2))),
                 ''column_states'' \<mapsto>
                   States (map snd (compatible_pairs
                     (example_model 2 [2, 2, 2, 2] [0, 0]) (all_states 2))),
                 ''weights'' \<mapsto> Rates rs]
        \<and> length rs = 72)"
    and b'': "length (all_states 2) = 16"
    unfolding example_count_2 by auto
  from a' a'' b' b'' show ?thesis
    by blast
qed

end
